theory Spec2Isabelle
  imports Complex_Main
begin

section \<open>The rocalution solver backend of opm-simulators\<close>

text \<open>
  A shallow embedding of
  \<^verbatim>\<open>opm/simulators/linalg/gpubridge/rocm/rocalutionSolverBackend.cpp\<close>:
  the member functions \<^verbatim>\<open>initialize\<close>, \<^verbatim>\<open>convert_matrix\<close>, \<^verbatim>\<open>get_result\<close> and
  \<^verbatim>\<open>solve_system\<close> of the class template
  \<^verbatim>\<open>rocalutionSolverBackend<Scalar, block_size>\<close>.

  The constructor and the destructor only create and release the objects of the
  library; they are not modelled.

  \<^item> The template parameter \<^verbatim>\<open>block_size\<close> and the macro \<^verbatim>\<open>BCSR_IND_BASE\<close> (from
    rocalution's \<^verbatim>\<open>matrix_formats_ind.hpp\<close>) are the first two arguments of every
    function that uses them.
  \<^item> \<^verbatim>\<open>Scalar\<close> values in arrays are of an arbitrary type \<open>'a\<close>: the code only moves them.
  \<^item> Raw arrays (\<^verbatim>\<open>int*\<close>, \<^verbatim>\<open>Scalar*\<close>) live in an explicit store. A cell of an array
    is \<open>None\<close> until it is written. An access outside an array, through a pointer
    with no array, or a read of an unwritten cell is undefined behaviour in C++;
    the model returns a \<open>fault\<close> for it.
  \<^item> rocalution is an external library. The calls the code makes are recorded, in
    order, in \<open>roc_calls\<close>, with the data handed over; what the library answers
    (norm, iteration count, residual, status, solution vector) and what the timer
    reads are the fields of a record \<open>roc_answers\<close>, over which every theorem
    quantifies.
  \<^item> \<^verbatim>\<open>int\<close> is 32 bits wide. Unsigned arithmetic wraps (\<open>u32\<close>); signed overflow is
    a fault.
  \<^item> \<^verbatim>\<open>double\<close> values are modelled with their special values made explicit
    (\<open>PosInf\<close>, \<open>NegInf\<close>, \<open>NaN\<close>); finite values are real numbers, so rounding
    and the sign of zero are not modelled.
\<close>

subsection \<open>Machine integers\<close>

definition INT_MAX :: int where
  "INT_MAX = 2147483647"

text \<open>Conversion to \<^verbatim>\<open>unsigned int\<close>, and the result of unsigned arithmetic.\<close>

definition u32 :: "int \<Rightarrow> int" where
  "u32 x = x mod 4294967296"

text \<open>Conversion of an \<^verbatim>\<open>unsigned int\<close> to \<^verbatim>\<open>int\<close> (two's complement).\<close>

definition s32 :: "int \<Rightarrow> int" where
  "s32 x = (if u32 x \<le> INT_MAX then u32 x else u32 x - 4294967296)"

subsection \<open>Faults and sequencing\<close>

text \<open>
  \<open>BadArrayNewLength\<close> is the exception \<^verbatim>\<open>std::bad_array_new_length\<close> of an array
  \<^verbatim>\<open>new\<close> with a negative signed length; the others are undefined behaviour.
\<close>

datatype fault =
    OutOfBounds
  | InvalidPointer
  | UninitializedRead
  | SignedOverflow
  | BadArrayNewLength

definition and_then :: "fault + 'x \<Rightarrow> ('x \<Rightarrow> fault + 'y) \<Rightarrow> fault + 'y" where
  "and_then r f = (case r of Inl e \<Rightarrow> Inl e | Inr x \<Rightarrow> f x)"

text \<open>\<^verbatim>\<open>a + b\<close> on \<^verbatim>\<open>int\<close>.\<close>

definition int_add :: "int \<Rightarrow> int \<Rightarrow> fault + int" where
  "int_add a b =
     (if a + b > INT_MAX \<or> a + b < - INT_MAX - 1 then Inl SignedOverflow else Inr (a + b))"

text \<open>
  \<^verbatim>\<open>for (int i = i0; i < n; ++i) body\<close>. The increment cannot overflow, since
  \<open>i < n\<close> and \<open>n\<close> is an \<^verbatim>\<open>int\<close>.
\<close>

function for_loop :: "int \<Rightarrow> int \<Rightarrow> (int \<Rightarrow> 's \<Rightarrow> fault + 's) \<Rightarrow> 's \<Rightarrow> fault + 's" where
  "for_loop i n body s =
     (if i < n
      then (case body i s of Inl e \<Rightarrow> Inl e | Inr s' \<Rightarrow> for_loop (i + 1) n body s')
      else Inr s)"
  by pat_completeness auto
termination
  by (relation "measure (\<lambda>(i, n, body, s). nat (n - i))") auto

declare for_loop.simps [simp del]

subsection \<open>Doubles\<close>

datatype double = Finite real | PosInf | NegInf | NaN

definition double_of_int :: "int \<Rightarrow> double" where
  "double_of_int i = Finite (of_int i)"

text \<open>IEEE 754 division. A zero divisor is \<open>+0\<close>.\<close>

fun double_div :: "double \<Rightarrow> double \<Rightarrow> double" where
  "double_div NaN y = NaN"
| "double_div x NaN = NaN"
| "double_div (Finite x) (Finite y) =
     (if y \<noteq> 0 then Finite (x / y)
      else if x = 0 then NaN
      else if 0 < x then PosInf else NegInf)"
| "double_div (Finite x) PosInf = Finite 0"
| "double_div (Finite x) NegInf = Finite 0"
| "double_div PosInf (Finite y) = (if 0 \<le> y then PosInf else NegInf)"
| "double_div NegInf (Finite y) = (if 0 \<le> y then NegInf else PosInf)"
| "double_div PosInf PosInf = NaN"
| "double_div PosInf NegInf = NaN"
| "double_div NegInf PosInf = NaN"
| "double_div NegInf NegInf = NaN"

definition is_integer :: "real \<Rightarrow> bool" where
  "is_integer e = (e = of_int \<lfloor>e\<rfloor>)"

definition is_odd_integer :: "real \<Rightarrow> bool" where
  "is_odd_integer e = (is_integer e \<and> odd \<lfloor>e\<rfloor>)"

text \<open>\<^verbatim>\<open>pow(x, y)\<close> of \<^verbatim>\<open><cmath>\<close>, with the special cases of C's Annex F.\<close>

definition pow_finite :: "real \<Rightarrow> real \<Rightarrow> double" where
  "pow_finite x e =
     (if 0 < x then Finite (x powr e)
      else if x = 0 then (if e < 0 then PosInf else Finite 0)
      else if is_odd_integer e then Finite (- (\<bar>x\<bar> powr e))
      else if is_integer e then Finite (\<bar>x\<bar> powr e)
      else NaN)"

fun pow :: "double \<Rightarrow> double \<Rightarrow> double" where
  "pow x (Finite e) =
     (if e = 0 then Finite 1
      else (case x of
              Finite r \<Rightarrow> pow_finite r e
            | PosInf \<Rightarrow> (if e < 0 then Finite 0 else PosInf)
            | NegInf \<Rightarrow> (if e < 0 then Finite 0
                          else if is_odd_integer e then NegInf else PosInf)
            | NaN \<Rightarrow> NaN))"
| "pow x PosInf =
     (case x of
        Finite r \<Rightarrow> (if \<bar>r\<bar> < 1 then Finite 0 else if \<bar>r\<bar> = 1 then Finite 1 else PosInf)
      | PosInf \<Rightarrow> PosInf
      | NegInf \<Rightarrow> PosInf
      | NaN \<Rightarrow> NaN)"
| "pow x NegInf =
     (case x of
        Finite r \<Rightarrow> (if \<bar>r\<bar> < 1 then PosInf else if \<bar>r\<bar> = 1 then Finite 1 else Finite 0)
      | PosInf \<Rightarrow> Finite 0
      | NegInf \<Rightarrow> Finite 0
      | NaN \<Rightarrow> NaN)"
| "pow x NaN = (if x = Finite 1 then Finite 1 else NaN)"

subsection \<open>The store, the library trace and the log\<close>

type_synonym addr = nat

definition nullptr :: addr where
  "nullptr = 0"

text \<open>
  The calls made to rocalution. \<open>SetDataPtrBCSR\<close> takes over the three arrays; it is
  recorded with their contents at that moment and with the four integers passed
  (\<^verbatim>\<open>nnzb, Nb, Nb, block_size\<close>). \<open>CopyFromData\<close> is recorded with the array read.
\<close>

datatype 'a roc_call =
    SetDataPtrBCSR "int option list" "int option list" "'a option list" int int int int
  | MoveToAccelerator_mat
  | MoveToAccelerator_x
  | MoveToAccelerator_rhs
  | Allocate_x
  | Allocate_rhs
  | CopyFromData "'a list"
  | Zeros_x
  | Clear
  | SetOperator
  | SetPreconditioner
  | ReBuildNumeric
  | Norm_rhs
  | Solve
  | MoveToHost_x
  | CopyToData

text \<open>The messages given to \<^verbatim>\<open>OpmLog::info\<close>.\<close>

datatype 'a log_entry =
    Initializing int int int 'a
  | Convert_matrix_time
  | Get_result_time
  | Solve_summary bool double double double int

record 'a world =
  int_mem :: "addr \<Rightarrow> int option list option"
  val_mem :: "addr \<Rightarrow> 'a option list option"
  next_addr :: addr
  roc_calls :: "'a roc_call list"
  OpmLog :: "'a log_entry list"

text \<open>\<^verbatim>\<open>new int[n]\<close> with \<open>n\<close> an \<^verbatim>\<open>int\<close>: a fresh array of unwritten cells.\<close>

definition new_int_array :: "int \<Rightarrow> 'a world \<Rightarrow> fault + (addr \<times> 'a world)" where
  "new_int_array n w =
     (if n < 0 then Inl BadArrayNewLength
      else Inr (next_addr w,
                w\<lparr>int_mem := (int_mem w)(next_addr w \<mapsto> replicate (nat n) None),
                  next_addr := Suc (next_addr w)\<rparr>))"

text \<open>\<^verbatim>\<open>new Scalar[n]\<close> with \<open>n\<close> an \<^verbatim>\<open>unsigned int\<close>.\<close>

definition new_val_array :: "int \<Rightarrow> 'a world \<Rightarrow> addr \<times> 'a world" where
  "new_val_array n w =
     (next_addr w,
      w\<lparr>val_mem := (val_mem w)(next_addr w \<mapsto> replicate (nat n) None),
        next_addr := Suc (next_addr w)\<rparr>)"

definition read_int :: "'a world \<Rightarrow> addr \<Rightarrow> int \<Rightarrow> fault + int" where
  "read_int w p i =
     (case int_mem w p of
        None \<Rightarrow> Inl InvalidPointer
      | Some xs \<Rightarrow>
          if 0 \<le> i \<and> i < int (length xs)
          then (case xs ! nat i of None \<Rightarrow> Inl UninitializedRead | Some v \<Rightarrow> Inr v)
          else Inl OutOfBounds)"

definition write_int :: "'a world \<Rightarrow> addr \<Rightarrow> int \<Rightarrow> int \<Rightarrow> fault + 'a world" where
  "write_int w p i v =
     (case int_mem w p of
        None \<Rightarrow> Inl InvalidPointer
      | Some xs \<Rightarrow>
          if 0 \<le> i \<and> i < int (length xs)
          then Inr (w\<lparr>int_mem := (int_mem w)(p \<mapsto> xs[nat i := Some v])\<rparr>)
          else Inl OutOfBounds)"

definition read_val :: "'a world \<Rightarrow> addr \<Rightarrow> int \<Rightarrow> fault + 'a" where
  "read_val w p i =
     (case val_mem w p of
        None \<Rightarrow> Inl InvalidPointer
      | Some xs \<Rightarrow>
          if 0 \<le> i \<and> i < int (length xs)
          then (case xs ! nat i of None \<Rightarrow> Inl UninitializedRead | Some v \<Rightarrow> Inr v)
          else Inl OutOfBounds)"

definition write_val :: "'a world \<Rightarrow> addr \<Rightarrow> int \<Rightarrow> 'a \<Rightarrow> fault + 'a world" where
  "write_val w p i v =
     (case val_mem w p of
        None \<Rightarrow> Inl InvalidPointer
      | Some xs \<Rightarrow>
          if 0 \<le> i \<and> i < int (length xs)
          then Inr (w\<lparr>val_mem := (val_mem w)(p \<mapsto> xs[nat i := Some v])\<rparr>)
          else Inl OutOfBounds)"

definition roc_call_seq :: "'a roc_call list \<Rightarrow> 'a world \<Rightarrow> 'a world" where
  "roc_call_seq cs w = w\<lparr>roc_calls := roc_calls w @ cs\<rparr>"

definition OpmLog_info :: "'a log_entry \<Rightarrow> 'a world \<Rightarrow> 'a world" where
  "OpmLog_info e w = w\<lparr>OpmLog := OpmLog w @ [e]\<rparr>"

subsection \<open>The data of the backend\<close>

text \<open>
  \<^verbatim>\<open>BlockedMatrix<Scalar>\<close>: three raw arrays and two dimensions. The field \<^verbatim>\<open>Nb\<close> is
  named \<open>matrix_Nb\<close> here, since the backend has a member \<^verbatim>\<open>Nb\<close> of its own.
\<close>

record BlockedMatrix =
  nnzValues :: addr
  colIndices :: addr
  rowPointers :: addr
  matrix_Nb :: int
  nnzbs :: int

text \<open>The members of \<^verbatim>\<open>rocalutionSolverBackend\<close> and of its base \<^verbatim>\<open>GpuSolver\<close>.\<close>

record 'a backend =
  verbosity :: int
  maxit :: int
  tolerance :: 'a
  N :: int
  Nb :: int
  nnz :: int
  nnzb :: int
  initialized :: bool
  h_x :: "'a list"
  tmp_rowpointers :: addr
  tmp_colindices :: addr
  tmp_nnzvalues :: addr

record GpuResult =
  iterations :: int
  reduction :: double
  converged :: bool
  conv_rate :: double
  elapsed :: double

text \<open>
  The enumeration \<^verbatim>\<open>SolverStatus\<close> is declared outside this file, which uses only
  \<^verbatim>\<open>GPU_SOLVER_SUCCESS\<close>; \<open>GPU_SOLVER_other\<close> stands for its other enumerators.
\<close>

datatype SolverStatus = GPU_SOLVER_SUCCESS | GPU_SOLVER_other

text \<open>
  What rocalution and the timer answer during one call of \<^verbatim>\<open>solve_system\<close>:
  \<^verbatim>\<open>roc_rhs.Norm()\<close>, \<^verbatim>\<open>GetIterationCount()\<close>, \<^verbatim>\<open>GetCurrentResidual()\<close>,
  \<^verbatim>\<open>GetSolverStatus()\<close>, the contents of \<^verbatim>\<open>roc_x\<close> after \<^verbatim>\<open>Solve\<close>, and
  \<^verbatim>\<open>t_solve.stop()\<close>.
\<close>

record 'a roc_answers =
  Norm :: double
  GetIterationCount :: int
  GetCurrentResidual :: double
  GetSolverStatus :: int
  roc_x_data :: "'a list"
  t_solve_stop :: double

text \<open>
  The values of \<^verbatim>\<open>GetSolverStatus()\<close>, as the comment in \<^verbatim>\<open>solve_system\<close> lists them.
\<close>

definition no_criteria_reached :: int where
  "no_criteria_reached = 0"

definition absolute_tolerance_reached :: int where
  "absolute_tolerance_reached = 1"

definition relative_tolerance_reached :: int where
  "relative_tolerance_reached = 2"

definition divergence_tolerance_reached :: int where
  "divergence_tolerance_reached = 3"

definition maximum_iterations_reached :: int where
  "maximum_iterations_reached = 4"

subsection \<open>initialize\<close>

text \<open>\<^verbatim>\<open>std::vector::resize\<close>: new elements are value-initialised.\<close>

definition resize :: "int \<Rightarrow> 'a::zero list \<Rightarrow> 'a list" where
  "resize n xs = take (nat n) xs @ replicate (nat n - length xs) 0"

text \<open>
  The products \<^verbatim>\<open>Nb * block_size\<close> and \<^verbatim>\<open>nnzb * block_size * block_size\<close> are computed
  in \<^verbatim>\<open>unsigned int\<close>, \<^verbatim>\<open>block_size\<close> being one.
\<close>

definition initialize :: "int \<Rightarrow> 'a::zero backend \<Rightarrow> BlockedMatrix \<Rightarrow> 'a world \<Rightarrow> 'a backend \<times> 'a world" where
  "initialize block_size be matrix w =
     (let be1 = be\<lparr>Nb := matrix_Nb matrix\<rparr>;
          be2 = be1\<lparr>N := s32 (Nb be1 * block_size)\<rparr>;
          be3 = be2\<lparr>nnzb := nnzbs matrix\<rparr>;
          be4 = be3\<lparr>nnz := s32 (nnzb be3 * block_size * block_size)\<rparr>;
          w1 = OpmLog_info (Initializing (Nb be4) (nnzb be4) (maxit be4) (tolerance be4)) w;
          be5 = be4\<lparr>h_x := resize (u32 (Nb be4 * block_size)) (h_x be4)\<rparr>
      in (be5\<lparr>initialized := True\<rparr>, w1))"

subsection \<open>convert\_matrix\<close>

text \<open>One assignment \<^verbatim>\<open>dst[i] = src[i]\<close> between \<^verbatim>\<open>int\<close> arrays.\<close>

definition copy_int :: "addr \<Rightarrow> addr \<Rightarrow> int \<Rightarrow> 'a world \<Rightarrow> fault + 'a world" where
  "copy_int dst src i w = and_then (read_int w src i) (write_int w dst i)"

text \<open>The index \<^verbatim>\<open>i * block_size * block_size + k\<close>, an \<^verbatim>\<open>unsigned int\<close>.\<close>

definition block_index :: "int \<Rightarrow> int \<Rightarrow> int \<Rightarrow> int" where
  "block_index block_size i k = u32 (i * block_size * block_size + k)"

text \<open>One assignment \<^verbatim>\<open>dst[d] = src[s]\<close> between \<^verbatim>\<open>Scalar\<close> arrays.\<close>

definition copy_val :: "addr \<Rightarrow> addr \<Rightarrow> int \<Rightarrow> int \<Rightarrow> 'a world \<Rightarrow> fault + 'a world" where
  "copy_val dst src d s w = and_then (read_val w src s) (write_val w dst d)"

text \<open>
  The body of the third loop: nine assignments
  \<^verbatim>\<open>tmp_nnzvalues[i * block_size * block_size + d] = matrix->nnzValues[i * block_size * block_size + s]\<close>,
  in the order of the source.
\<close>

definition transpose_block ::
  "int \<Rightarrow> 'a backend \<Rightarrow> BlockedMatrix \<Rightarrow> int \<Rightarrow> 'a world \<Rightarrow> fault + 'a world" where
  "transpose_block block_size be matrix i w =
     (let dst = tmp_nnzvalues be; src = nnzValues matrix; ix = block_index block_size i in
      and_then (copy_val dst src (ix 0) (ix 0) w) (\<lambda>w.
      and_then (copy_val dst src (ix 1) (ix 3) w) (\<lambda>w.
      and_then (copy_val dst src (ix 2) (ix 6) w) (\<lambda>w.
      and_then (copy_val dst src (ix 3) (ix 1) w) (\<lambda>w.
      and_then (copy_val dst src (ix 4) (ix 4) w) (\<lambda>w.
      and_then (copy_val dst src (ix 5) (ix 7) w) (\<lambda>w.
      and_then (copy_val dst src (ix 6) (ix 2) w) (\<lambda>w.
      and_then (copy_val dst src (ix 7) (ix 5) w) (\<lambda>w.
      copy_val dst src (ix 8) (ix 8) w)))))))))"

text \<open>
  The bound \<^verbatim>\<open>Nb+1\<close> of the first loop is an \<^verbatim>\<open>int\<close> sum. The timer is read only for
  the log message.
\<close>

definition convert_matrix ::
  "int \<Rightarrow> int \<Rightarrow> 'a backend \<Rightarrow> BlockedMatrix \<Rightarrow> 'a world \<Rightarrow> fault + 'a world" where
  "convert_matrix block_size BCSR_IND_BASE be matrix w =
     and_then (int_add (Nb be) 1) (\<lambda>n.
     and_then (for_loop 0 n (copy_int (tmp_rowpointers be) (rowPointers matrix)) w) (\<lambda>w.
     and_then (for_loop 0 (nnzb be) (copy_int (tmp_colindices be) (colIndices matrix)) w) (\<lambda>w.
     and_then (if BCSR_IND_BASE = 0
               then for_loop 0 (nnzb be) (transpose_block block_size be matrix) w
               else Inr w) (\<lambda>w.
     Inr (if verbosity be \<ge> 3 then OpmLog_info Convert_matrix_time w else w)))))"

subsection \<open>get\_result\<close>

text \<open>\<^verbatim>\<open>std::copy(h_x.begin(), h_x.end(), x)\<close> into the caller's array \<open>x\<close>.\<close>

definition get_result :: "'a backend \<Rightarrow> addr \<Rightarrow> 'a world \<Rightarrow> fault + 'a world" where
  "get_result be x w =
     (case val_mem w x of
        None \<Rightarrow> Inl InvalidPointer
      | Some xs \<Rightarrow>
          if length (h_x be) \<le> length xs
          then (let w1 = w\<lparr>val_mem := (val_mem w)(x \<mapsto> map Some (h_x be) @ drop (length (h_x be)) xs)\<rparr>
                in Inr (if verbosity be \<ge> 3 then OpmLog_info Get_result_time w1 else w1))
          else Inl OutOfBounds)"

subsection \<open>solve\_system\<close>

text \<open>
  \<^verbatim>\<open>roc_mat.SetDataPtrBCSR(&tmp_rowpointers, &tmp_colindices, &tmp_nnzvalues,
  "matrix A", nnzb, Nb, Nb, block_size)\<close>: the library takes over the three arrays,
  which leave the store, and sets the three pointers to \<^verbatim>\<open>nullptr\<close>.
\<close>

definition roc_SetDataPtrBCSR ::
  "int \<Rightarrow> 'a backend \<Rightarrow> 'a world \<Rightarrow> fault + ('a backend \<times> 'a world)" where
  "roc_SetDataPtrBCSR block_size be w =
     (case (int_mem w (tmp_rowpointers be), int_mem w (tmp_colindices be),
            val_mem w (tmp_nnzvalues be)) of
        (Some rp, Some ci, Some vs) \<Rightarrow>
          Inr (be\<lparr>tmp_rowpointers := nullptr, tmp_colindices := nullptr, tmp_nnzvalues := nullptr\<rparr>,
               roc_call_seq [SetDataPtrBCSR rp ci vs (nnzb be) (Nb be) (Nb be) block_size]
                 (w\<lparr>int_mem := (int_mem w)(tmp_rowpointers be := None, tmp_colindices be := None),
                    val_mem := (val_mem w)(tmp_nnzvalues be := None)\<rparr>))
      | _ \<Rightarrow> Inl InvalidPointer)"

text \<open>
  \<^verbatim>\<open>roc_x.CopyToData(h_x.data())\<close>: the library writes the contents of \<^verbatim>\<open>roc_x\<close> to
  the storage of \<^verbatim>\<open>h_x\<close>.
\<close>

definition roc_CopyToData :: "'a list \<Rightarrow> 'a list \<Rightarrow> fault + 'a list" where
  "roc_CopyToData xs hx =
     (if length xs \<le> length hx then Inr (xs @ drop (length xs) hx) else Inl OutOfBounds)"

text \<open>
  The arguments \<open>jacMatrix\<close> and \<open>wellContribs\<close> are \<^verbatim>\<open>[[maybe_unused]]\<close> in the source.
  The class \<^verbatim>\<open>WellContributions\<close> is declared outside this file and no member of it is
  used, so its type is a parameter. The right-hand side \<open>b\<close> is only read; it is passed
  by value. \<open>lib\<close> holds the answers of the library and of the timer. The result
  \<^verbatim>\<open>res\<close>, a reference in the source, is returned.
\<close>

definition solve_system ::
  "int \<Rightarrow> int \<Rightarrow> 'a::zero backend \<Rightarrow> BlockedMatrix \<Rightarrow> 'a list \<Rightarrow> BlockedMatrix option \<Rightarrow> 'w \<Rightarrow>
   'a roc_answers \<Rightarrow> 'a world \<Rightarrow> fault + (SolverStatus \<times> GpuResult \<times> 'a backend \<times> 'a world)" where
  "solve_system block_size BCSR_IND_BASE be matrix b jacMatrix wellContribs lib w =
     (let (be, w) = (if initialized be = False then initialize block_size be matrix w else (be, w)) in
      and_then (int_add (Nb be) 1) (\<lambda>n.
      and_then (new_int_array n w) (\<lambda>(p1, w).
      and_then (new_int_array (nnzb be) w) (\<lambda>(p2, w).
      (let (p3, w) = new_val_array (u32 (nnzb be * block_size * block_size)) w;
           be = be\<lparr>tmp_rowpointers := p1, tmp_colindices := p2, tmp_nnzvalues := p3\<rparr>
       in
      and_then (convert_matrix block_size BCSR_IND_BASE be matrix w) (\<lambda>w.
      and_then (roc_SetDataPtrBCSR block_size be w) (\<lambda>(be, w).
      (let w = roc_call_seq
                 [MoveToAccelerator_mat, MoveToAccelerator_x, MoveToAccelerator_rhs,
                  Allocate_x, Allocate_rhs, CopyFromData b, Zeros_x,
                  Clear, SetOperator, SetPreconditioner, ReBuildNumeric] w;
           w = roc_call_seq [Norm_rhs] w;
           norm_0 = Norm lib;
           w = roc_call_seq [Solve] w;
           res_elapsed = t_solve_stop lib;
           res_iterations = GetIterationCount lib;
           res_reduction = double_div (GetCurrentResidual lib) norm_0;
           res_conv_rate = pow res_reduction (double_div (Finite 1) (double_of_int res_iterations));
           res_converged = (GetSolverStatus lib = 2);
           res = \<lparr>iterations = res_iterations, reduction = res_reduction,
                  converged = res_converged, conv_rate = res_conv_rate,
                  elapsed = res_elapsed\<rparr>;
           w = roc_call_seq [MoveToHost_x, CopyToData] w
       in
      and_then (roc_CopyToData (roc_x_data lib) (h_x be)) (\<lambda>hx.
      (let be = be\<lparr>h_x := hx\<rparr>;
           w = (if verbosity be \<ge> 1
                then OpmLog_info
                       (Solve_summary (converged res) (conv_rate res) (elapsed res)
                          (double_div (elapsed res) (double_of_int (iterations res)))
                          (iterations res)) w
                else w)
       in Inr (GPU_SOLVER_SUCCESS, res, be, w)))))))))))"

text \<open>
  Modelled from the spec: the class \<^verbatim>\<open>WellContributions\<close> is not among the sources.
  The spec calls the external contributions well-equation terms that are applied
  additively to the matrix and to the right-hand side.
\<close>

record 'a WellContributions =
  matrix_terms :: "'a list"
  rhs_terms :: "'a list"

section \<open>Notions used to state the properties\<close>

subsection \<open>The block transposition\<close>

text \<open>
  The table of \<^verbatim>\<open>convert_matrix\<close>, applied to the first \<open>n\<close> blocks of nine cells: cell
  \<open>k\<close> of block \<open>i\<close> of the result is cell \<open>[0, 3, 6, 1, 4, 7, 2, 5, 8] ! k\<close> of block \<open>i\<close>
  of the argument.
\<close>

definition transpose3_blocks :: "nat \<Rightarrow> 'b list \<Rightarrow> 'b list" where
  "transpose3_blocks n xs =
     concat (map (\<lambda>i. map (\<lambda>k. xs ! (9 * i + k)) [0, 3, 6, 1, 4, 7, 2, 5, 8]) [0..<n])"

text \<open>
  The conversion between row-major and column-major blocks in the words of the
  specification, for any block size: the entry in row \<open>r\<close> and column \<open>c\<close> of a block,
  at offset \<open>r * bs + c\<close> of the block in one order, is at offset \<open>c * bs + r\<close> in the
  other.
\<close>

definition transpose_blocks :: "nat \<Rightarrow> nat \<Rightarrow> 'b list \<Rightarrow> 'b list" where
  "transpose_blocks bs n xs =
     concat (map (\<lambda>i. map (\<lambda>k. xs ! (bs * bs * i + (k mod bs) * bs + k div bs)) [0..<bs * bs])
               [0..<n])"

subsection \<open>Stages of a call\<close>

text \<open>
  \<open>only_wrote A w w'\<close>: from \<open>w\<close> to \<open>w'\<close> only arrays at addresses in \<open>A\<close> changed, and
  those kept their length; no array was allocated and no library call made.
\<close>

definition only_wrote :: "addr set \<Rightarrow> 'a world \<Rightarrow> 'a world \<Rightarrow> bool" where
  "only_wrote A w w' \<longleftrightarrow>
     roc_calls w' = roc_calls w \<and> next_addr w' = next_addr w \<and>
     (\<forall>p. p \<notin> A \<longrightarrow> int_mem w' p = int_mem w p \<and> val_mem w' p = val_mem w p) \<and>
     (\<forall>p. map_option length (int_mem w' p) = map_option length (int_mem w p)) \<and>
     (\<forall>p. map_option length (val_mem w' p) = map_option length (val_mem w p))"

text \<open>The library calls of \<^verbatim>\<open>solve_system\<close> that follow \<^verbatim>\<open>SetDataPtrBCSR\<close>.\<close>

definition calls_after_SetDataPtrBCSR :: "'a list \<Rightarrow> 'a roc_call list" where
  "calls_after_SetDataPtrBCSR b =
     [MoveToAccelerator_mat, MoveToAccelerator_x, MoveToAccelerator_rhs,
      Allocate_x, Allocate_rhs, CopyFromData b, Zeros_x,
      Clear, SetOperator, SetPreconditioner, ReBuildNumeric, Norm_rhs, Solve,
      MoveToHost_x, CopyToData]"

text \<open>The backend and the store after the three \<^verbatim>\<open>new\<close> of \<^verbatim>\<open>solve_system\<close>.\<close>

definition staging :: "int \<Rightarrow> 'a backend \<Rightarrow> 'a world \<Rightarrow> 'a backend \<times> 'a world" where
  "staging bs be w =
     (be\<lparr>tmp_rowpointers := next_addr w, tmp_colindices := Suc (next_addr w),
         tmp_nnzvalues := Suc (Suc (next_addr w))\<rparr>,
      w\<lparr>int_mem := (int_mem w)(next_addr w \<mapsto> replicate (nat (Nb be + 1)) None,
                               Suc (next_addr w) \<mapsto> replicate (nat (nnzb be)) None),
        val_mem := (val_mem w)(Suc (Suc (next_addr w)) \<mapsto>
                      replicate (nat (u32 (nnzb be * bs * bs))) None),
        next_addr := Suc (Suc (Suc (next_addr w)))\<rparr>)"

text \<open>The record \<^verbatim>\<open>res\<close> that \<^verbatim>\<open>solve_system\<close> fills in, and its summary message.\<close>

definition GpuResult_of :: "'a roc_answers \<Rightarrow> GpuResult" where
  "GpuResult_of lib =
     \<lparr>iterations = GetIterationCount lib,
      reduction = double_div (GetCurrentResidual lib) (Norm lib),
      converged = (GetSolverStatus lib = 2),
      conv_rate = pow (double_div (GetCurrentResidual lib) (Norm lib))
                    (double_div (Finite 1) (double_of_int (GetIterationCount lib))),
      elapsed = t_solve_stop lib\<rparr>"

definition summary_log :: "'a backend \<Rightarrow> GpuResult \<Rightarrow> 'a world \<Rightarrow> 'a world" where
  "summary_log be res w =
     (if verbosity be \<ge> 1
      then OpmLog_info
             (Solve_summary (converged res) (conv_rate res) (elapsed res)
                (double_div (elapsed res) (double_of_int (iterations res)))
                (iterations res)) w
      else w)"

subsection \<open>The dimensions a call works with\<close>

text \<open>
  \<^verbatim>\<open>solve_system\<close> calls \<^verbatim>\<open>initialize\<close> only when \<^verbatim>\<open>initialized\<close> is false. So a call
  works with the dimensions of its matrix on a backend that is not initialised, and
  with the dimensions the backend holds otherwise.
\<close>

definition call_Nb :: "'a backend \<Rightarrow> BlockedMatrix \<Rightarrow> int" where
  "call_Nb be m = (if initialized be then Nb be else matrix_Nb m)"

definition call_nnzb :: "'a backend \<Rightarrow> BlockedMatrix \<Rightarrow> int" where
  "call_nnzb be m = (if initialized be then nnzb be else nnzbs m)"

definition call_h_x :: "int \<Rightarrow> 'a::zero backend \<Rightarrow> BlockedMatrix \<Rightarrow> 'a list" where
  "call_h_x bs be m =
     (if initialized be then h_x be else resize (u32 (matrix_Nb m * bs)) (h_x be))"

subsection \<open>Inputs that the code reads within bounds\<close>

text \<open>\<open>readable n a\<close>: \<open>a\<close> is an array of at least \<open>n\<close> cells, the first \<open>n\<close> written.\<close>

definition readable :: "nat \<Rightarrow> 'b option list option \<Rightarrow> bool" where
  "readable n a = (case a of None \<Rightarrow> False | Some xs \<Rightarrow> n \<le> length xs \<and> None \<notin> set (take n xs))"

text \<open>
  \<open>well_sized\<close> collects what a call needs in order to stay within its arrays and
  within 32 bits. Nothing is asked of the values of the row pointers and column
  indices.
  \<^item> The dimensions of the call: \<open>-1 \<le> Nb < INT_MAX\<close> and \<open>0 \<le> nnzb\<close>.
  \<^item> The caller's \<^verbatim>\<open>rowPointers\<close> and \<^verbatim>\<open>colIndices\<close> were allocated before the call
    and hold \<open>Nb + 1\<close> and \<open>nnzb\<close> written cells at least.
  \<^item> When the loop over the blocks runs (\<^verbatim>\<open>BCSR_IND_BASE == 0\<close>): the block size is 3 at
    least, so that the offsets 0 to 8 lie within a block; the number of values fits
    an \<^verbatim>\<open>unsigned int\<close>; and \<^verbatim>\<open>nnzValues\<close> was allocated before the call and holds
    \<open>nnzb * block_size * block_size\<close> written cells at least.
  \<^item> The solution vector that the library copies to \<^verbatim>\<open>h_x\<close> is not longer than \<^verbatim>\<open>h_x\<close>.
\<close>

definition well_sized ::
  "int \<Rightarrow> int \<Rightarrow> 'a::zero backend \<Rightarrow> BlockedMatrix \<Rightarrow> 'a roc_answers \<Rightarrow> 'a world \<Rightarrow> bool" where
  "well_sized bs ib be m lib w \<longleftrightarrow>
     0 \<le> call_Nb be m + 1 \<and> call_Nb be m < INT_MAX \<and> 0 \<le> call_nnzb be m \<and>
     rowPointers m < next_addr w \<and> colIndices m < next_addr w \<and>
     readable (nat (call_Nb be m + 1)) (int_mem w (rowPointers m)) \<and>
     readable (nat (call_nnzb be m)) (int_mem w (colIndices m)) \<and>
     (ib = 0 \<longrightarrow> 3 \<le> bs \<and> call_nnzb be m * bs * bs < 4294967296 \<and>
                nnzValues m < next_addr w \<and>
                readable (nat (call_nnzb be m * bs * bs)) (val_mem w (nnzValues m))) \<and>
     length (roc_x_data lib) \<le> length (call_h_x bs be m)"

section \<open>Example inputs\<close>

text \<open>
  A store with the arrays of six matrices, allocated at the addresses 1 to 11:
  \<^item> \<open>matrix_A\<close>: one block row with one 3 by 3 block;
  \<^item> \<open>matrix_B\<close>: two block rows with one 3 by 3 block each;
  \<^item> \<open>matrix_malformed\<close>: the values of \<open>matrix_A\<close> with three row pointers for one block
    row, the last of them 5 for one block, and the column index 7;
  \<^item> \<open>matrix_1\<close>, \<open>matrix_2\<close> and \<open>matrix_4\<close>: one block of block size 1, 2 and 4, with
    the structure of \<open>matrix_A\<close>.
\<close>

definition example_world :: "real world" where
  "example_world =
     \<lparr>int_mem = (Map.empty)(2 \<mapsto> [Some 0], 3 \<mapsto> [Some 0, Some 1],
                             5 \<mapsto> [Some 0, Some 1], 6 \<mapsto> [Some 0, Some 1, Some 2],
                             7 \<mapsto> [Some 7], 8 \<mapsto> [Some 0, Some 5, Some 5]),
      val_mem = (Map.empty)(1 \<mapsto> map Some [10, 11, 12, 13, 14, 15, 16, 17, 18],
                             4 \<mapsto> map Some [10, 11, 12, 13, 14, 15, 16, 17, 18,
                                              20, 21, 22, 23, 24, 25, 26, 27, 28],
                             9 \<mapsto> map Some [1, 2, 3, 4],
                             10 \<mapsto> map Some [0, 1, 2, 3, 4, 5, 6, 7, 8, 9, 10, 11, 12, 13, 14, 15],
                             11 \<mapsto> map Some [1]),
      next_addr = 12, roc_calls = [], OpmLog = []\<rparr>"

definition matrix_A :: BlockedMatrix where
  "matrix_A = \<lparr>nnzValues = 1, colIndices = 2, rowPointers = 3, matrix_Nb = 1, nnzbs = 1\<rparr>"

definition matrix_B :: BlockedMatrix where
  "matrix_B = \<lparr>nnzValues = 4, colIndices = 5, rowPointers = 6, matrix_Nb = 2, nnzbs = 2\<rparr>"

definition matrix_malformed :: BlockedMatrix where
  "matrix_malformed = \<lparr>nnzValues = 1, colIndices = 7, rowPointers = 8, matrix_Nb = 1, nnzbs = 1\<rparr>"

definition matrix_1 :: BlockedMatrix where
  "matrix_1 = \<lparr>nnzValues = 11, colIndices = 2, rowPointers = 3, matrix_Nb = 1, nnzbs = 1\<rparr>"

definition matrix_2 :: BlockedMatrix where
  "matrix_2 = \<lparr>nnzValues = 9, colIndices = 2, rowPointers = 3, matrix_Nb = 1, nnzbs = 1\<rparr>"

definition matrix_4 :: BlockedMatrix where
  "matrix_4 = \<lparr>nnzValues = 10, colIndices = 2, rowPointers = 3, matrix_Nb = 1, nnzbs = 1\<rparr>"

text \<open>A backend before its first call.\<close>

definition fresh_backend :: "real backend" where
  "fresh_backend =
     \<lparr>verbosity = 0, maxit = 200, tolerance = 1 / 100, N = 0, Nb = 0, nnz = 0, nnzb = 0,
      initialized = False, h_x = [], tmp_rowpointers = nullptr, tmp_colindices = nullptr,
      tmp_nnzvalues = nullptr\<rparr>"

text \<open>Right-hand sides for \<open>matrix_A\<close> (of norm 5, and zero) and for \<open>matrix_B\<close>.\<close>

definition rhs_A :: "real list" where
  "rhs_A = [3, 0, 4]"

definition rhs_zero :: "real list" where
  "rhs_zero = [0, 0, 0]"

definition rhs_B :: "real list" where
  "rhs_B = [3, 0, 4, 0, 0, 0]"

text \<open>
  Answers of the library: the relative tolerance reached after two iterations; the
  absolute tolerance reached after three; divergence with a residual that is not a
  number; and a zero right-hand side, whose residual 0 meets the absolute tolerance
  before the first iteration.
\<close>

definition answers_relative :: "real roc_answers" where
  "answers_relative =
     \<lparr>Norm = Finite 5, GetIterationCount = 2, GetCurrentResidual = Finite (1 / 1000),
      GetSolverStatus = 2, roc_x_data = [1, 1, 1], t_solve_stop = Finite (1 / 100)\<rparr>"

definition answers_absolute :: "real roc_answers" where
  "answers_absolute =
     \<lparr>Norm = Finite 5, GetIterationCount = 3, GetCurrentResidual = Finite 0,
      GetSolverStatus = 1, roc_x_data = [1, 1, 1], t_solve_stop = Finite (1 / 100)\<rparr>"

definition answers_diverged :: "real roc_answers" where
  "answers_diverged =
     \<lparr>Norm = Finite 5, GetIterationCount = 7, GetCurrentResidual = NaN,
      GetSolverStatus = 3, roc_x_data = [1, 1, 1], t_solve_stop = Finite (1 / 100)\<rparr>"

definition answers_zero_rhs :: "real roc_answers" where
  "answers_zero_rhs =
     \<lparr>Norm = Finite 0, GetIterationCount = 0, GetCurrentResidual = Finite 0,
      GetSolverStatus = 1, roc_x_data = [0, 0, 0], t_solve_stop = Finite (1 / 100)\<rparr>"

text \<open>
  Answers of the library for \<open>matrix_1\<close> and \<open>matrix_2\<close>: the solution vector has \<open>Nb *
  block_size\<close> entries, one and two, as many as \<^verbatim>\<open>h_x\<close>.
\<close>

definition answers_1 :: "real roc_answers" where
  "answers_1 =
     \<lparr>Norm = Finite 3, GetIterationCount = 2, GetCurrentResidual = Finite (1 / 1000),
      GetSolverStatus = 2, roc_x_data = [1], t_solve_stop = Finite (1 / 100)\<rparr>"

definition answers_2 :: "real roc_answers" where
  "answers_2 =
     \<lparr>Norm = Finite 5, GetIterationCount = 2, GetCurrentResidual = Finite (1 / 1000),
      GetSolverStatus = 2, roc_x_data = [1, 1], t_solve_stop = Finite (1 / 100)\<rparr>"

text \<open>
  Modelled from the spec: well-equation terms for \<open>matrix_A\<close> and \<open>rhs_A\<close>, and what the
  spec calls applying them additively to the right-hand side.
\<close>

definition wells_A :: "real WellContributions" where
  "wells_A = \<lparr>matrix_terms = [1, 1, 1, 1, 1, 1, 1, 1, 1], rhs_terms = [5, 5, 5]\<rparr>"

definition no_wells :: "real WellContributions" where
  "no_wells = \<lparr>matrix_terms = [], rhs_terms = []\<rparr>"

definition add_rhs_terms :: "real list \<Rightarrow> real WellContributions \<Rightarrow> real list" where
  "add_rhs_terms b wells = map2 (+) b (rhs_terms wells)"

definition add_matrix_terms :: "real list \<Rightarrow> real WellContributions \<Rightarrow> real list" where
  "add_matrix_terms vs wells = map2 (+) vs (matrix_terms wells)"

section \<open>Lemmas\<close>

subsection \<open>Sequencing and loops\<close>

lemma and_then_Inr [simp]: "and_then (Inr x) f = f x"
  by (simp add: and_then_def)

lemma and_then_Inl [simp]: "and_then (Inl e) f = Inl e"
  by (simp add: and_then_def)

lemma and_then_eq_Inr:
  "and_then r f = Inr y \<longleftrightarrow> (\<exists>x. r = Inr x \<and> f x = Inr y)"
  by (cases r) simp_all

lemma for_loop_total:
  assumes step: "\<And>j t. i \<le> j \<Longrightarrow> j < n \<Longrightarrow> I j t \<Longrightarrow> \<exists>t'. body j t = Inr t' \<and> I (j + 1) t'"
    and init: "I i s"
    and le: "i \<le> n"
  shows "\<exists>s'. for_loop i n body s = Inr s' \<and> I n s'"
  using assms
proof (induction i n body s rule: for_loop.induct)
  case (1 i n body s)
  show ?case
  proof (cases "i < n")
    case True
    from 1(2) [of i s] True 1(3) obtain t' where t': "body i s = Inr t'" "I (i + 1) t'"
      by auto
    have "\<exists>s'. for_loop (i + 1) n body t' = Inr s' \<and> I n s'"
    proof (rule 1(1) [OF True t'(1)])
      show "\<exists>t'. body j t = Inr t' \<and> I (j + 1) t'" if "i + 1 \<le> j" "j < n" "I j t" for j t
        using 1(2) [of j t] that by simp
      show "I (i + 1) t'" by (rule t'(2))
      show "i + 1 \<le> n" using True by simp
    qed
    then show ?thesis
      using True t'(1) by (subst for_loop.simps) simp
  next
    case False
    with 1(4) have "i = n" by simp
    then show ?thesis
      using 1(3) by (subst for_loop.simps) simp
  qed
qed

lemma for_loop_steps:
  assumes "\<And>j. i \<le> j \<Longrightarrow> j < n \<Longrightarrow> body j (f j) = Inr (f (j + 1))"
    and "i \<le> n"
  shows "for_loop i n body (f i) = Inr (f n)"
  using for_loop_total [where I = "\<lambda>j t. t = f j" and body = body and i = i and n = n and s = "f i"] assms
  by auto

lemma for_loop_empty: "n \<le> i \<Longrightarrow> for_loop i n body s = Inr s"
  by (subst for_loop.simps) simp

lemma for_loop_preserves:
  assumes "for_loop i n body s = Inr s'"
    and "P s"
    and "\<And>j t t'. P t \<Longrightarrow> body j t = Inr t' \<Longrightarrow> P t'"
  shows "P s'"
  using assms
proof (induction i n body s rule: for_loop.induct)
  case (1 i n body s)
  show ?case
  proof (cases "i < n")
    case True
    with 1(2) obtain t where t: "body i s = Inr t" "for_loop (i + 1) n body t = Inr s'"
      by (subst (asm) for_loop.simps) (auto split: sum.splits)
    have "P t" using 1(4) [OF 1(3) t(1)] .
    from 1(1) [OF True t(1) t(2) this 1(4)] show ?thesis by simp
  next
    case False
    with 1(2) have "s' = s" by (subst (asm) for_loop.simps) simp
    with 1(3) show ?thesis by simp
  qed
qed

subsection \<open>The power function\<close>

lemma pow_PosInf_eq_one:
  "pow x PosInf = Finite 1 \<longleftrightarrow> (\<exists>r. x = Finite r \<and> \<bar>r\<bar> = 1)"
  by (cases x) (auto split: if_splits)

subsection \<open>The loops that copy the row pointers and the column indices\<close>

lemma take_replicate_update:
  assumes "j < n" "n \<le> length xs"
  shows "(take j xs @ replicate (n - j) y)[j := xs ! j] = take (Suc j) xs @ replicate (n - Suc j) y"
proof -
  have "replicate (n - j) y = y # replicate (n - Suc j) y"
    using assms(1) by (metis Suc_diff_Suc replicate_Suc)
  then show ?thesis
    using assms by (simp add: list_update_append take_Suc_conv_app_nth)
qed

lemma copy_int_step:
  assumes "int_mem w src = Some xs" "src \<noteq> dst" "int_mem w dst = Some ys"
    and "i < length xs" "i < length ys" "xs ! i \<noteq> None"
  shows "copy_int dst src (int i) w = Inr (w\<lparr>int_mem := (int_mem w)(dst \<mapsto> ys[i := xs ! i])\<rparr>)"
  using assms by (auto simp: copy_int_def read_int_def write_int_def)

lemma nth_take_not_None:
  assumes "None \<notin> set (take n xs)" "k < n" "n \<le> length xs"
  shows "xs ! k \<noteq> None"
proof -
  have "take n xs ! k \<in> set (take n xs)"
    using assms by (intro nth_mem) simp
  then have "xs ! k \<in> set (take n xs)"
    using assms by simp
  with assms(1) show ?thesis by (cases "xs ! k") auto
qed

lemma copy_int_loop:
  assumes src: "int_mem w src = Some xs" and ne: "src \<noteq> dst"
    and dst: "int_mem w dst = Some (replicate n None)"
    and len: "n \<le> length xs" and init: "None \<notin> set (take n xs)"
  shows "for_loop 0 (int n) (copy_int dst src) w =
         Inr (w\<lparr>int_mem := (int_mem w)(dst \<mapsto> take n xs)\<rparr>)"
proof -
  define f where "f j = w\<lparr>int_mem := (int_mem w)(dst \<mapsto> take (nat j) xs @ replicate (n - nat j) None)\<rparr>" for j :: int
  have "for_loop 0 (int n) (copy_int dst src) (f 0) = Inr (f (int n))"
  proof (rule for_loop_steps)
    fix j :: int
    assume j: "0 \<le> j" "j < int n"
    define k where "k = nat j"
    have k: "j = int k" "k < n" using j by (simp_all add: k_def)
    have some: "xs ! k \<noteq> None"
      using init k(2) len by (rule nth_take_not_None)
    have "copy_int dst src (int k) (f (int k)) =
          Inr ((f (int k))\<lparr>int_mem := (int_mem (f (int k)))(dst \<mapsto> (take k xs @ replicate (n - k) None)[k := xs ! k])\<rparr>)"
      by (rule copy_int_step) (use src ne k len some in \<open>simp_all add: f_def\<close>)
    also have "\<dots> = Inr (f (int k + 1))"
      using take_replicate_update [OF k(2) len, of None]
      by (simp add: f_def nat_add_distrib)
    finally show "copy_int dst src j (f j) = Inr (f (j + 1))"
      using k by simp
  qed simp
  moreover have "f 0 = w" using dst by (simp add: f_def fun_upd_idem)
  moreover have "f (int n) = w\<lparr>int_mem := (int_mem w)(dst \<mapsto> take n xs)\<rparr>"
    by (simp add: f_def)
  ultimately show ?thesis by simp
qed

subsection \<open>The loop that transposes the blocks\<close>

lemma copy_val_step:
  assumes "val_mem w src = Some xs" "src \<noteq> dst" "val_mem w dst = Some ys"
    and "s < length xs" "d < length ys" "xs ! s \<noteq> None"
  shows "copy_val dst src (int d) (int s) w = Inr (w\<lparr>val_mem := (val_mem w)(dst \<mapsto> ys[d := xs ! s])\<rparr>)"
  using assms by (auto simp: copy_val_def read_val_def write_val_def)

lemma length_transpose3_blocks [simp]: "length (transpose3_blocks n xs) = 9 * n"
  by (induction n) (simp_all add: transpose3_blocks_def)

lemma transpose3_blocks_Suc:
  "transpose3_blocks (Suc n) xs =
     transpose3_blocks n xs @ map (\<lambda>k. xs ! (9 * n + k)) [0, 3, 6, 1, 4, 7, 2, 5, 8]"
  by (simp add: transpose3_blocks_def)

lemma block_index_3:
  assumes "9 * i + k < 4294967296"
  shows "block_index 3 (int i) (int k) = int (9 * i + k)"
proof -
  have "int i * 3 * 3 + int k = int (9 * i + k)" by simp
  moreover have "int (9 * i + k) mod 4294967296 = int (9 * i + k)"
    using assms by (intro mod_pos_pos_trivial) simp_all
  ultimately show ?thesis by (simp only: block_index_def u32_def)
qed

lemma nine_writes:
  assumes "length A = 9 * j" "j < n"
  shows "(A @ replicate (9 * (n - j)) y)
           [9 * j := a0, 9 * j + 1 := a1, 9 * j + 2 := a2, 9 * j + 3 := a3, 9 * j + 4 := a4,
            9 * j + 5 := a5, 9 * j + 6 := a6, 9 * j + 7 := a7, 9 * j + 8 := a8] =
         (A @ [a0, a1, a2, a3, a4, a5, a6, a7, a8]) @ replicate (9 * (n - Suc j)) y"
proof -
  have "9 * (n - j) = 9 + 9 * (n - Suc j)" using assms(2) by simp
  then have "replicate (9 * (n - j)) y = replicate 9 y @ replicate (9 * (n - Suc j)) y"
    by (simp only: replicate_add)
  then show ?thesis
    using assms(1) by (simp add: list_update_append eval_nat_numeral)
qed

lemma nine_copies:
  assumes src: "val_mem w src = Some xs" and ne: "src \<noteq> dst"
    and dst: "val_mem w dst = Some ys"
    and d: "d0 < length ys" "d1 < length ys" "d2 < length ys" "d3 < length ys" "d4 < length ys"
      "d5 < length ys" "d6 < length ys" "d7 < length ys" "d8 < length ys"
    and s: "s0 < length xs" "s1 < length xs" "s2 < length xs" "s3 < length xs" "s4 < length xs"
      "s5 < length xs" "s6 < length xs" "s7 < length xs" "s8 < length xs"
    and nn: "xs ! s0 \<noteq> None" "xs ! s1 \<noteq> None" "xs ! s2 \<noteq> None" "xs ! s3 \<noteq> None"
      "xs ! s4 \<noteq> None" "xs ! s5 \<noteq> None" "xs ! s6 \<noteq> None" "xs ! s7 \<noteq> None" "xs ! s8 \<noteq> None"
  shows "and_then (copy_val dst src (int d0) (int s0) w) (\<lambda>w.
         and_then (copy_val dst src (int d1) (int s1) w) (\<lambda>w.
         and_then (copy_val dst src (int d2) (int s2) w) (\<lambda>w.
         and_then (copy_val dst src (int d3) (int s3) w) (\<lambda>w.
         and_then (copy_val dst src (int d4) (int s4) w) (\<lambda>w.
         and_then (copy_val dst src (int d5) (int s5) w) (\<lambda>w.
         and_then (copy_val dst src (int d6) (int s6) w) (\<lambda>w.
         and_then (copy_val dst src (int d7) (int s7) w) (\<lambda>w.
         copy_val dst src (int d8) (int s8) w)))))))) =
         Inr (w\<lparr>val_mem := (val_mem w)(dst \<mapsto>
                ys[d0 := xs ! s0, d1 := xs ! s1, d2 := xs ! s2, d3 := xs ! s3, d4 := xs ! s4,
                   d5 := xs ! s5, d6 := xs ! s6, d7 := xs ! s7, d8 := xs ! s8])\<rparr>)"
proof -
  have step: "copy_val dst src (int d) (int s) (w\<lparr>val_mem := (val_mem w)(dst \<mapsto> zs)\<rparr>) =
              Inr (w\<lparr>val_mem := (val_mem w)(dst \<mapsto> zs[d := xs ! s])\<rparr>)"
    if "length zs = length ys" "d < length ys" "s < length xs" "xs ! s \<noteq> None" for d s zs
    using copy_val_step [of "w\<lparr>val_mem := (val_mem w)(dst \<mapsto> zs)\<rparr>" src xs dst zs s d] src ne that
    by simp
  have first: "copy_val dst src (int d) (int s) w =
              Inr (w\<lparr>val_mem := (val_mem w)(dst \<mapsto> ys[d := xs ! s])\<rparr>)"
    if "d < length ys" "s < length xs" "xs ! s \<noteq> None" for d s
    using copy_val_step [of w src xs dst ys s d] src ne dst that
    by simp
  show ?thesis
    by (simp add: first step d s nn)
qed

lemma transpose_block_step:
  assumes src: "val_mem w (nnzValues m) = Some xs" and ne: "nnzValues m \<noteq> tmp_nnzvalues be"
    and dst: "val_mem w (tmp_nnzvalues be) = Some ys"
    and lx: "9 * i + 9 \<le> length xs" and ly: "9 * i + 9 \<le> length ys"
    and init: "\<And>k. k < 9 \<Longrightarrow> xs ! (9 * i + k) \<noteq> None"
    and small: "9 * i + 9 \<le> 4294967296"
  shows "transpose_block 3 be m (int i) w =
         Inr (w\<lparr>val_mem := (val_mem w)(tmp_nnzvalues be \<mapsto>
                ys[9 * i + 0 := xs ! (9 * i + 0), 9 * i + 1 := xs ! (9 * i + 3),
                   9 * i + 2 := xs ! (9 * i + 6), 9 * i + 3 := xs ! (9 * i + 1),
                   9 * i + 4 := xs ! (9 * i + 4), 9 * i + 5 := xs ! (9 * i + 7),
                   9 * i + 6 := xs ! (9 * i + 2), 9 * i + 7 := xs ! (9 * i + 5),
                   9 * i + 8 := xs ! (9 * i + 8)])\<rparr>)"
proof -
  have ix: "block_index 3 (int i) (int k) = int (9 * i + k)" if "k < 9" for k
    using that small by (intro block_index_3) simp
  have ix': "block_index 3 (int i) 0 = int (9 * i + 0)" "block_index 3 (int i) 1 = int (9 * i + 1)"
    "block_index 3 (int i) 2 = int (9 * i + 2)" "block_index 3 (int i) 3 = int (9 * i + 3)"
    "block_index 3 (int i) 4 = int (9 * i + 4)" "block_index 3 (int i) 5 = int (9 * i + 5)"
    "block_index 3 (int i) 6 = int (9 * i + 6)" "block_index 3 (int i) 7 = int (9 * i + 7)"
    "block_index 3 (int i) 8 = int (9 * i + 8)"
    using ix [of 0] ix [of 1] ix [of 2] ix [of 3] ix [of 4] ix [of 5] ix [of 6] ix [of 7] ix [of 8]
    by simp_all
  show ?thesis
    unfolding transpose_block_def Let_def ix'
    by (rule nine_copies [OF src ne dst]) (use lx ly init [of 0] init [of 1] init [of 2] init [of 3]
        init [of 4] init [of 5] init [of 6] init [of 7] init [of 8] in simp_all)
qed

lemma transpose_block_loop:
  assumes src: "val_mem w (nnzValues m) = Some xs" and ne: "nnzValues m \<noteq> tmp_nnzvalues be"
    and dst: "val_mem w (tmp_nnzvalues be) = Some (replicate (9 * n) None)"
    and len: "9 * n \<le> length xs" and init: "None \<notin> set (take (9 * n) xs)"
    and small: "9 * n \<le> 4294967296"
  shows "for_loop 0 (int n) (transpose_block 3 be m) w =
         Inr (w\<lparr>val_mem := (val_mem w)(tmp_nnzvalues be \<mapsto> transpose3_blocks n xs)\<rparr>)"
proof -
  define f where "f j = w\<lparr>val_mem := (val_mem w)(tmp_nnzvalues be \<mapsto>
      transpose3_blocks (nat j) xs @ replicate (9 * (n - nat j)) None)\<rparr>" for j :: int
  have "for_loop 0 (int n) (transpose_block 3 be m) (f 0) = Inr (f (int n))"
  proof (rule for_loop_steps)
    fix j :: int
    assume j: "0 \<le> j" "j < int n"
    define k where "k = nat j"
    have k: "j = int k" "k < n" using j by (simp_all add: k_def)
    have some: "xs ! (9 * k + l) \<noteq> None" if "l < 9" for l
      using init _ len by (rule nth_take_not_None) (use k that in simp)
    let ?ys = "transpose3_blocks k xs @ replicate (9 * (n - k)) None"
    have "transpose_block 3 be m (int k) (f (int k)) =
          Inr ((f (int k))\<lparr>val_mem := (val_mem (f (int k)))(tmp_nnzvalues be \<mapsto>
                ?ys[9 * k + 0 := xs ! (9 * k + 0), 9 * k + 1 := xs ! (9 * k + 3),
                   9 * k + 2 := xs ! (9 * k + 6), 9 * k + 3 := xs ! (9 * k + 1),
                   9 * k + 4 := xs ! (9 * k + 4), 9 * k + 5 := xs ! (9 * k + 7),
                   9 * k + 6 := xs ! (9 * k + 2), 9 * k + 7 := xs ! (9 * k + 5),
                   9 * k + 8 := xs ! (9 * k + 8)])\<rparr>)"
      by (rule transpose_block_step) (use src ne k len some small in \<open>simp_all add: f_def\<close>)
    also have "\<dots> = Inr (f (int k + 1))"
      using nine_writes [of "transpose3_blocks k xs" k n None, OF _ k(2)]
      by (simp add: f_def nat_add_distrib transpose3_blocks_Suc)
    finally show "transpose_block 3 be m j (f j) = Inr (f (j + 1))"
      using k by simp
  qed simp
  moreover have "f 0 = w" using dst by (simp add: f_def fun_upd_idem transpose3_blocks_def)
  moreover have "f (int n) = w\<lparr>val_mem := (val_mem w)(tmp_nnzvalues be \<mapsto> transpose3_blocks n xs)\<rparr>"
    by (simp add: f_def)
  ultimately show ?thesis by simp
qed

lemma block_index_nat:
  assumes "B * B * i + k < 4294967296"
  shows "block_index (int B) (int i) (int k) = int (B * B * i + k)"
proof -
  have "int i * int B * int B + int k = int (B * B * i + k)"
    by (simp add: mult.commute mult.left_commute)
  moreover have "int (B * B * i + k) < int 4294967296"
    using assms by (simp only: of_nat_less_iff)
  then have "int (B * B * i + k) mod 4294967296 = int (B * B * i + k)"
    by (intro mod_pos_pos_trivial) (simp_all del: of_nat_add of_nat_mult)
  ultimately show ?thesis by (simp only: block_index_def u32_def)
qed

lemma transpose_block_general:
  assumes src: "val_mem w (nnzValues m) = Some xs" and ne: "nnzValues m \<noteq> tmp_nnzvalues be"
    and dst: "val_mem w (tmp_nnzvalues be) = Some ys"
    and lx: "B * B * i + 9 \<le> length xs" and ly: "B * B * i + 9 \<le> length ys"
    and init: "\<And>k. k < 9 \<Longrightarrow> xs ! (B * B * i + k) \<noteq> None"
    and small: "B * B * i + 9 \<le> 4294967296"
  shows "\<exists>zs. length zs = length ys \<and>
     transpose_block (int B) be m (int i) w =
       Inr (w\<lparr>val_mem := (val_mem w)(tmp_nnzvalues be \<mapsto> zs)\<rparr>)"
proof -
  have ix: "block_index (int B) (int i) (int k) = int (B * B * i + k)" if "k < 9" for k
    using that small by (intro block_index_nat) simp
  have ix': "block_index (int B) (int i) 0 = int (B * B * i + 0)"
    "block_index (int B) (int i) 1 = int (B * B * i + 1)"
    "block_index (int B) (int i) 2 = int (B * B * i + 2)"
    "block_index (int B) (int i) 3 = int (B * B * i + 3)"
    "block_index (int B) (int i) 4 = int (B * B * i + 4)"
    "block_index (int B) (int i) 5 = int (B * B * i + 5)"
    "block_index (int B) (int i) 6 = int (B * B * i + 6)"
    "block_index (int B) (int i) 7 = int (B * B * i + 7)"
    "block_index (int B) (int i) 8 = int (B * B * i + 8)"
    using ix [of 0] ix [of 1] ix [of 2] ix [of 3] ix [of 4] ix [of 5] ix [of 6] ix [of 7] ix [of 8]
    by simp_all
  let ?zs = "ys[B * B * i + 0 := xs ! (B * B * i + 0), B * B * i + 1 := xs ! (B * B * i + 3),
                   B * B * i + 2 := xs ! (B * B * i + 6), B * B * i + 3 := xs ! (B * B * i + 1),
                   B * B * i + 4 := xs ! (B * B * i + 4), B * B * i + 5 := xs ! (B * B * i + 7),
                   B * B * i + 6 := xs ! (B * B * i + 2), B * B * i + 7 := xs ! (B * B * i + 5),
                   B * B * i + 8 := xs ! (B * B * i + 8)]"
  have "transpose_block (int B) be m (int i) w =
       Inr (w\<lparr>val_mem := (val_mem w)(tmp_nnzvalues be \<mapsto> ?zs)\<rparr>)"
    unfolding transpose_block_def Let_def ix'
    by (rule nine_copies [OF src ne dst]) (use lx ly init [of 0] init [of 1] init [of 2] init [of 3]
        init [of 4] init [of 5] init [of 6] init [of 7] init [of 8] in simp_all)
  moreover have "length ?zs = length ys" by simp
  ultimately show ?thesis by blast
qed

lemma transpose_block_loop_general:
  assumes src: "val_mem w (nnzValues m) = Some xs" and ne: "nnzValues m \<noteq> tmp_nnzvalues be"
    and dst: "val_mem w (tmp_nnzvalues be) = Some ys"
    and B: "3 \<le> B"
    and lx: "B * B * n \<le> length xs" and ly: "B * B * n \<le> length ys"
    and init: "None \<notin> set (take (B * B * n) xs)"
    and small: "B * B * n \<le> 4294967296"
  shows "\<exists>zs. length zs = length ys \<and>
     for_loop 0 (int n) (transpose_block (int B) be m) w =
       Inr (w\<lparr>val_mem := (val_mem w)(tmp_nnzvalues be \<mapsto> zs)\<rparr>)"
proof -
  define I where "I j t \<longleftrightarrow>
     (\<exists>zs. length zs = length ys \<and> t = w\<lparr>val_mem := (val_mem w)(tmp_nnzvalues be \<mapsto> zs)\<rparr>)"
    for j :: int and t
  have nine: "9 \<le> B * B"
  proof -
    have "3 * 3 \<le> B * B" using B by (intro mult_le_mono) simp_all
    then show ?thesis by simp
  qed
  have "\<exists>s'. for_loop 0 (int n) (transpose_block (int B) be m) w = Inr s' \<and> I (int n) s'"
  proof (rule for_loop_total)
    show "I 0 w"
      unfolding I_def using dst by (intro exI [of _ ys]) (simp add: fun_upd_idem)
    show "0 \<le> int n" by simp
  next
    fix j :: int and t
    assume j: "0 \<le> j" "j < int n" and "I j t"
    then obtain zs where zs: "length zs = length ys"
      and t: "t = w\<lparr>val_mem := (val_mem w)(tmp_nnzvalues be \<mapsto> zs)\<rparr>"
      unfolding I_def by blast
    define i where "i = nat j"
    have i: "j = int i" "i < n" using j by (simp_all add: i_def)
    have "B * B * i + B * B \<le> B * B * n"
    proof -
      have "B * B * Suc i \<le> B * B * n" using i(2) by (intro mult_le_mono) simp_all
      then show ?thesis by simp
    qed
    with nine have bound: "B * B * i + 9 \<le> B * B * n" by simp
    have some: "xs ! (B * B * i + k) \<noteq> None" if "k < 9" for k
      using init _ lx by (rule nth_take_not_None) (use bound that in simp)
    have "\<exists>zs'. length zs' = length zs \<and>
       transpose_block (int B) be m (int i) t =
         Inr (t\<lparr>val_mem := (val_mem t)(tmp_nnzvalues be \<mapsto> zs')\<rparr>)"
      by (rule transpose_block_general [where xs = xs])
        (use src ne t zs bound lx ly small some in simp_all)
    then obtain zs' where "length zs' = length zs"
      "transpose_block (int B) be m (int i) t =
         Inr (t\<lparr>val_mem := (val_mem t)(tmp_nnzvalues be \<mapsto> zs')\<rparr>)"
      by blast
    then show "\<exists>t'. transpose_block (int B) be m j t = Inr t' \<and> I (j + 1) t'"
      unfolding I_def using zs t i by auto
  qed
  then show ?thesis unfolding I_def by auto
qed

subsection \<open>What convert\_matrix leaves as it is\<close>

lemma only_wrote_refl: "only_wrote A w w"
  by (simp add: only_wrote_def)

lemma only_wrote_trans: "only_wrote A w w' \<Longrightarrow> only_wrote A w' w'' \<Longrightarrow> only_wrote A w w''"
  by (simp add: only_wrote_def)

lemma only_wrote_mono: "only_wrote A w w' \<Longrightarrow> A \<subseteq> B \<Longrightarrow> only_wrote B w w'"
  by (auto simp: only_wrote_def)

lemma only_wrote_log: "only_wrote A w (OpmLog_info e w)"
  by (simp add: only_wrote_def OpmLog_info_def)

lemma copy_int_only_wrote:
  assumes "copy_int dst src i w = Inr w'"
  shows "only_wrote {dst} w w'"
  using assms
  by (auto simp: copy_int_def read_int_def write_int_def only_wrote_def and_then_def
      split: sum.splits option.splits if_splits)

lemma copy_val_only_wrote:
  assumes "copy_val dst src d s w = Inr w'"
  shows "only_wrote {dst} w w'"
  using assms
  by (auto simp: copy_val_def read_val_def write_val_def only_wrote_def and_then_def
      split: sum.splits option.splits if_splits)

lemma and_then_only_wrote:
  assumes "and_then (f w) g = Inr w''"
    and "\<And>w'. f w = Inr w' \<Longrightarrow> only_wrote A w w'"
    and "\<And>w'. f w = Inr w' \<Longrightarrow> g w' = Inr w'' \<Longrightarrow> only_wrote A w' w''"
  shows "only_wrote A w w''"
  using assms by (cases "f w") (auto intro: only_wrote_trans)

lemma transpose_block_only_wrote:
  assumes "transpose_block bs be m i w = Inr w'"
  shows "only_wrote {tmp_nnzvalues be} w w'"
  using assms unfolding transpose_block_def Let_def
  by (elim and_then_only_wrote copy_val_only_wrote)

lemma for_loop_only_wrote:
  assumes "for_loop i n body w = Inr w'"
    and "\<And>j t t'. body j t = Inr t' \<Longrightarrow> only_wrote A t t'"
  shows "only_wrote A w w'"
  using assms(1)
  by (rule for_loop_preserves [where P = "only_wrote A w"])
    (auto intro: only_wrote_refl only_wrote_trans assms(2))

lemma convert_matrix_only_wrote:
  assumes "convert_matrix bs ib be m w = Inr w'"
  shows "only_wrote {tmp_rowpointers be, tmp_colindices be, tmp_nnzvalues be} w w'"
proof -
  let ?A = "{tmp_rowpointers be, tmp_colindices be, tmp_nnzvalues be}"
  from assms obtain n w1 w2 w3 where
    l1: "for_loop 0 n (copy_int (tmp_rowpointers be) (rowPointers m)) w = Inr w1" and
    l2: "for_loop 0 (nnzb be) (copy_int (tmp_colindices be) (colIndices m)) w1 = Inr w2" and
    l3: "(if ib = 0 then for_loop 0 (nnzb be) (transpose_block bs be m) w2 else Inr w2) = Inr w3" and
    w': "w' = (if verbosity be \<ge> 3 then OpmLog_info Convert_matrix_time w3 else w3)"
    unfolding convert_matrix_def by (auto simp: and_then_eq_Inr)
  have "only_wrote ?A w w1"
    using l1 by (rule for_loop_only_wrote) (auto dest: copy_int_only_wrote intro: only_wrote_mono)
  moreover have "only_wrote ?A w1 w2"
    using l2 by (rule for_loop_only_wrote) (auto dest: copy_int_only_wrote intro: only_wrote_mono)
  moreover have "only_wrote ?A w2 w3"
  proof (cases "ib = 0")
    case True
    with l3 have "for_loop 0 (nnzb be) (transpose_block bs be m) w2 = Inr w3" by simp
    then show ?thesis
      by (rule for_loop_only_wrote) (auto dest: transpose_block_only_wrote intro: only_wrote_mono)
  next
    case False
    with l3 show ?thesis by (simp add: only_wrote_refl)
  qed
  moreover have "only_wrote ?A w3 w'"
    by (simp add: w' only_wrote_refl only_wrote_log)
  ultimately show ?thesis
    by (blast intro: only_wrote_trans)
qed

subsection \<open>The stages of solve\_system\<close>

text \<open>
  \<open>solve_system_partial\<close> says what holds whenever a call returns; \<open>solve_system_total\<close>
  says that a call on a well-sized input returns, and what it hands to the library.
\<close>

lemma and_then_InrE:
  assumes "and_then r f = Inr y"
  obtains x where "r = Inr x" "f x = Inr y"
  using assms by (cases r) simp_all

lemma solve_system_cases:
  assumes init: "(if initialized be = False then initialize bs be m w else (be, w)) = (be0, w0)"
  shows "solve_system bs ib be m b jac wells lib w =
     (if INT_MAX < Nb be0 + 1 \<or> Nb be0 + 1 < - INT_MAX - 1 then Inl SignedOverflow
      else if Nb be0 + 1 < 0 \<or> nnzb be0 < 0 then Inl BadArrayNewLength
      else
        and_then (convert_matrix bs ib (fst (staging bs be0 w0)) m (snd (staging bs be0 w0))) (\<lambda>w4.
        and_then (roc_SetDataPtrBCSR bs (fst (staging bs be0 w0)) w4) (\<lambda>(be2, w5).
        and_then (roc_CopyToData (roc_x_data lib) (h_x be2)) (\<lambda>hx.
        Inr (GPU_SOLVER_SUCCESS, GpuResult_of lib, be2\<lparr>h_x := hx\<rparr>,
             summary_log be2 (GpuResult_of lib)
               (roc_call_seq (calls_after_SetDataPtrBCSR b) w5))))))"
  unfolding solve_system_def init
  by (simp add: Let_def int_add_def new_int_array_def new_val_array_def staging_def
      GpuResult_of_def summary_log_def calls_after_SetDataPtrBCSR_def roc_call_seq_def
      cong: if_cong)

lemma convert_matrix_total:
  assumes rp: "int_mem w (rowPointers m) = Some rp" "nat (Nb be + 1) \<le> length rp"
      "None \<notin> set (take (nat (Nb be + 1)) rp)"
    and ci: "int_mem w (colIndices m) = Some ci" "nat (nnzb be) \<le> length ci"
      "None \<notin> set (take (nat (nnzb be)) ci)"
    and t1: "int_mem w (tmp_rowpointers be) = Some (replicate (nat (Nb be + 1)) None)"
    and t2: "int_mem w (tmp_colindices be) = Some (replicate (nat (nnzb be)) None)"
    and ne: "tmp_rowpointers be \<noteq> tmp_colindices be" "rowPointers m \<noteq> tmp_rowpointers be"
      "colIndices m \<noteq> tmp_rowpointers be" "colIndices m \<noteq> tmp_colindices be"
    and bounds: "0 \<le> Nb be + 1" "Nb be < INT_MAX" "0 \<le> nnzb be"
    and vals: "ib = 0 \<Longrightarrow> 3 \<le> bs \<and> val_mem w (nnzValues m) = Some vs \<and>
      nat (nnzb be * bs * bs) \<le> length vs \<and>
      None \<notin> set (take (nat (nnzb be * bs * bs)) vs) \<and>
      val_mem w (tmp_nnzvalues be) = Some (replicate (nat (nnzb be * bs * bs)) None) \<and>
      nnzValues m \<noteq> tmp_nnzvalues be \<and> nnzb be * bs * bs \<le> 4294967296"
  shows "\<exists>V. convert_matrix bs ib be m w =
     Inr ((if verbosity be \<ge> 3 then OpmLog_info Convert_matrix_time else id)
       (w\<lparr>int_mem := (int_mem w)(tmp_rowpointers be \<mapsto> take (nat (Nb be + 1)) rp,
                                 tmp_colindices be \<mapsto> take (nat (nnzb be)) ci),
          val_mem := (if ib = 0 then (val_mem w)(tmp_nnzvalues be \<mapsto> V) else val_mem w)\<rparr>)) \<and>
     (ib = 0 \<longrightarrow> length V = nat (nnzb be * bs * bs)) \<and>
     (ib = 0 \<and> bs = 3 \<longrightarrow> V = transpose3_blocks (nat (nnzb be)) vs)"
proof -
  let ?w1 = "w\<lparr>int_mem := (int_mem w)(tmp_rowpointers be \<mapsto> take (nat (Nb be + 1)) rp)\<rparr>"
  let ?w2 = "?w1\<lparr>int_mem := (int_mem ?w1)(tmp_colindices be \<mapsto> take (nat (nnzb be)) ci)\<rparr>"
  have add: "int_add (Nb be) 1 = Inr (Nb be + 1)"
    using bounds by (simp add: int_add_def INT_MAX_def)
  have "for_loop 0 (int (nat (Nb be + 1))) (copy_int (tmp_rowpointers be) (rowPointers m)) w = Inr ?w1"
    using rp(1) ne(2) t1 rp(2) rp(3) by (rule copy_int_loop)
  then have l1: "for_loop 0 (Nb be + 1) (copy_int (tmp_rowpointers be) (rowPointers m)) w = Inr ?w1"
    using bounds(1) by simp
  have "for_loop 0 (int (nat (nnzb be))) (copy_int (tmp_colindices be) (colIndices m)) ?w1 = Inr ?w2"
    by (rule copy_int_loop) (use ci t2 ne in simp_all)
  then have l2: "for_loop 0 (nnzb be) (copy_int (tmp_colindices be) (colIndices m)) ?w1 = Inr ?w2"
    using bounds(3) by simp
  show ?thesis
  proof (cases "ib = 0")
    case True
    note v = vals [OF True]
    define B where "B = nat bs"
    define n where "n = nat (nnzb be)"
    have bs: "bs = int B" "3 \<le> B" using v by (auto simp: B_def)
    have nz: "nnzb be = int n" using bounds(3) by (simp add: n_def)
    have size: "nat (nnzb be * bs * bs) = B * B * n"
      by (simp add: bs nz nat_mult_distrib mult.commute mult.left_commute flip: of_nat_mult)
    have small: "B * B * n \<le> 4294967296"
    proof -
      have "int (B * B * n) = nnzb be * bs * bs"
        by (simp add: bs nz mult.commute mult.left_commute)
      with v have "int (B * B * n) \<le> int 4294967296" by simp
      then show ?thesis by (simp only: of_nat_le_iff)
    qed
    have v': "val_mem w (nnzValues m) = Some vs" "B * B * n \<le> length vs"
      "None \<notin> set (take (B * B * n) vs)"
      "val_mem w (tmp_nnzvalues be) = Some (replicate (B * B * n) None)"
      "nnzValues m \<noteq> tmp_nnzvalues be"
      using v by (simp_all add: size)
    have "\<exists>zs. length zs = length (replicate (B * B * n) (None :: 'a option)) \<and>
       for_loop 0 (int n) (transpose_block (int B) be m) ?w2 =
         Inr (?w2\<lparr>val_mem := (val_mem ?w2)(tmp_nnzvalues be \<mapsto> zs)\<rparr>)"
      by (rule transpose_block_loop_general [where xs = vs])
        (use v' bs(2) small in simp_all)
    then obtain zs where zs: "length zs = B * B * n"
      and l3: "for_loop 0 (nnzb be) (transpose_block bs be m) ?w2 =
         Inr (?w2\<lparr>val_mem := (val_mem ?w2)(tmp_nnzvalues be \<mapsto> zs)\<rparr>)"
      by (auto simp: bs nz)
    have exact: "zs = transpose3_blocks n vs" if "bs = 3"
    proof -
      from that bs have B3: "B = 3" by simp
      have "for_loop 0 (int n) (transpose_block 3 be m) ?w2 =
         Inr (?w2\<lparr>val_mem := (val_mem ?w2)(tmp_nnzvalues be \<mapsto> transpose3_blocks n vs)\<rparr>)"
        by (rule transpose_block_loop) (use v' small B3 in simp_all)
      with l3 that nz have
        "?w2\<lparr>val_mem := (val_mem ?w2)(tmp_nnzvalues be \<mapsto> zs)\<rparr> =
         ?w2\<lparr>val_mem := (val_mem ?w2)(tmp_nnzvalues be \<mapsto> transpose3_blocks n vs)\<rparr>"
        by simp
      then have "((val_mem ?w2)(tmp_nnzvalues be \<mapsto> zs)) (tmp_nnzvalues be) =
         ((val_mem ?w2)(tmp_nnzvalues be \<mapsto> transpose3_blocks n vs)) (tmp_nnzvalues be)"
        by (rule arg_cong [where f = "\<lambda>u. val_mem u (tmp_nnzvalues be)", elim_format]) simp
      then show ?thesis by simp
    qed
    have "convert_matrix bs ib be m w =
     Inr ((if verbosity be \<ge> 3 then OpmLog_info Convert_matrix_time else id)
       (w\<lparr>int_mem := (int_mem w)(tmp_rowpointers be \<mapsto> take (nat (Nb be + 1)) rp,
                                 tmp_colindices be \<mapsto> take (nat (nnzb be)) ci),
          val_mem := (if ib = 0 then (val_mem w)(tmp_nnzvalues be \<mapsto> zs) else val_mem w)\<rparr>))"
      unfolding convert_matrix_def using l3 by (simp add: add l1 l2 True)
    with zs exact show ?thesis
      by (intro exI [of _ zs]) (simp add: size n_def)
  next
    case False
    show ?thesis
      unfolding convert_matrix_def by (simp add: add l1 l2 False)
  qed
qed

lemma roc_SetDataPtrBCSR_Inr:
  assumes "int_mem w (tmp_rowpointers be) = Some rp" "int_mem w (tmp_colindices be) = Some ci"
    "val_mem w (tmp_nnzvalues be) = Some vs"
  shows "roc_SetDataPtrBCSR bs be w =
     Inr (be\<lparr>tmp_rowpointers := nullptr, tmp_colindices := nullptr, tmp_nnzvalues := nullptr\<rparr>,
          roc_call_seq [SetDataPtrBCSR rp ci vs (nnzb be) (Nb be) (Nb be) bs]
            (w\<lparr>int_mem := (int_mem w)(tmp_rowpointers be := None, tmp_colindices be := None),
               val_mem := (val_mem w)(tmp_nnzvalues be := None)\<rparr>))"
  using assms by (simp add: roc_SetDataPtrBCSR_def)

lemma roc_SetDataPtrBCSR_InrD:
  assumes "roc_SetDataPtrBCSR bs be w = Inr (be2, w5)"
  shows "\<exists>rp ci vs. int_mem w (tmp_rowpointers be) = Some rp \<and>
     int_mem w (tmp_colindices be) = Some ci \<and> val_mem w (tmp_nnzvalues be) = Some vs \<and>
     be2 = be\<lparr>tmp_rowpointers := nullptr, tmp_colindices := nullptr, tmp_nnzvalues := nullptr\<rparr> \<and>
     w5 = roc_call_seq [SetDataPtrBCSR rp ci vs (nnzb be) (Nb be) (Nb be) bs]
            (w\<lparr>int_mem := (int_mem w)(tmp_rowpointers be := None, tmp_colindices be := None),
               val_mem := (val_mem w)(tmp_nnzvalues be := None)\<rparr>)"
  using assms by (auto simp: roc_SetDataPtrBCSR_def split: option.splits)

lemma init_cases:
  obtains be0 w0 where
    "(if initialized be = False then initialize bs be m w else (be, w)) = (be0, w0)"
    "Nb be0 = call_Nb be m" "nnzb be0 = call_nnzb be m" "initialized be0"
    "h_x be0 = call_h_x bs be m" "verbosity be0 = verbosity be"
    "maxit be0 = maxit be" "tolerance be0 = tolerance be"
    "initialized be \<Longrightarrow> be0 = be"
    "int_mem w0 = int_mem w" "val_mem w0 = val_mem w" "next_addr w0 = next_addr w"
    "roc_calls w0 = roc_calls w"
proof (cases "initialized be")
  case True
  show ?thesis
    by (rule that [of be w]) (simp_all add: True call_Nb_def call_nnzb_def call_h_x_def)
next
  case False
  show ?thesis
    by (rule that [of "fst (initialize bs be m w)" "snd (initialize bs be m w)"])
      (simp_all add: False call_Nb_def call_nnzb_def call_h_x_def initialize_def Let_def
        OpmLog_info_def)
qed

lemma solve_system_InrD:
  assumes ret: "solve_system bs ib be m b jac wells lib w = Inr (st, res, be', w')"
    and init: "(if initialized be = False then initialize bs be m w else (be, w)) = (be0, w0)"
  obtains w4 rp ci vs hx where
    "0 \<le> Nb be0 + 1" "Nb be0 < INT_MAX" "0 \<le> nnzb be0"
    "convert_matrix bs ib (fst (staging bs be0 w0)) m (snd (staging bs be0 w0)) = Inr w4"
    "int_mem w4 (next_addr w0) = Some rp" "int_mem w4 (Suc (next_addr w0)) = Some ci"
    "val_mem w4 (Suc (Suc (next_addr w0))) = Some vs"
    "roc_CopyToData (roc_x_data lib) (h_x be0) = Inr hx"
    "st = GPU_SOLVER_SUCCESS" "res = GpuResult_of lib"
    "be' = be0\<lparr>tmp_rowpointers := nullptr, tmp_colindices := nullptr, tmp_nnzvalues := nullptr,
               h_x := hx\<rparr>"
    "w' = summary_log be0 (GpuResult_of lib)
            (roc_call_seq (SetDataPtrBCSR rp ci vs (nnzb be0) (Nb be0) (Nb be0) bs #
                           calls_after_SetDataPtrBCSR b)
               (w4\<lparr>int_mem := (int_mem w4)(next_addr w0 := None, Suc (next_addr w0) := None),
                   val_mem := (val_mem w4)(Suc (Suc (next_addr w0)) := None)\<rparr>))"
proof -
  note eq = ret [unfolded solve_system_cases [OF init]]
  have b1: "\<not> (INT_MAX < Nb be0 + 1 \<or> Nb be0 + 1 < - INT_MAX - 1)"
    using eq by (auto split: if_splits)
  have b2: "\<not> (Nb be0 + 1 < 0 \<or> nnzb be0 < 0)"
    using eq b1 by (auto split: if_splits)
  from eq b1 b2 have eq':
    "and_then (convert_matrix bs ib (fst (staging bs be0 w0)) m (snd (staging bs be0 w0))) (\<lambda>w4.
        and_then (roc_SetDataPtrBCSR bs (fst (staging bs be0 w0)) w4) (\<lambda>(be2, w5).
        and_then (roc_CopyToData (roc_x_data lib) (h_x be2)) (\<lambda>hx.
        Inr (GPU_SOLVER_SUCCESS, GpuResult_of lib, be2\<lparr>h_x := hx\<rparr>,
             summary_log be2 (GpuResult_of lib)
               (roc_call_seq (calls_after_SetDataPtrBCSR b) w5))))) = Inr (st, res, be', w')"
    by (simp only: if_False)
  then obtain w4 where cm: "convert_matrix bs ib (fst (staging bs be0 w0)) m (snd (staging bs be0 w0)) = Inr w4"
    and r1: "and_then (roc_SetDataPtrBCSR bs (fst (staging bs be0 w0)) w4) (\<lambda>(be2, w5).
        and_then (roc_CopyToData (roc_x_data lib) (h_x be2)) (\<lambda>hx.
        Inr (GPU_SOLVER_SUCCESS, GpuResult_of lib, be2\<lparr>h_x := hx\<rparr>,
             summary_log be2 (GpuResult_of lib)
               (roc_call_seq (calls_after_SetDataPtrBCSR b) w5)))) = Inr (st, res, be', w')"
    by (rule and_then_InrE)
  from r1 obtain be2 w5 where sd: "roc_SetDataPtrBCSR bs (fst (staging bs be0 w0)) w4 = Inr (be2, w5)"
    and r2: "and_then (roc_CopyToData (roc_x_data lib) (h_x be2)) (\<lambda>hx.
        Inr (GPU_SOLVER_SUCCESS, GpuResult_of lib, be2\<lparr>h_x := hx\<rparr>,
             summary_log be2 (GpuResult_of lib)
               (roc_call_seq (calls_after_SetDataPtrBCSR b) w5))) = Inr (st, res, be', w')"
    by (auto simp: and_then_eq_Inr)
  from r2 obtain hx where cp: "roc_CopyToData (roc_x_data lib) (h_x be2) = Inr hx"
    and fin: "st = GPU_SOLVER_SUCCESS" "res = GpuResult_of lib" "be' = be2\<lparr>h_x := hx\<rparr>"
      "w' = summary_log be2 (GpuResult_of lib) (roc_call_seq (calls_after_SetDataPtrBCSR b) w5)"
    by (auto simp: and_then_eq_Inr)
  from roc_SetDataPtrBCSR_InrD [OF sd] obtain rp ci vs where
    arr: "int_mem w4 (next_addr w0) = Some rp" "int_mem w4 (Suc (next_addr w0)) = Some ci"
      "val_mem w4 (Suc (Suc (next_addr w0))) = Some vs"
    and be2: "be2 = be0\<lparr>tmp_rowpointers := nullptr, tmp_colindices := nullptr, tmp_nnzvalues := nullptr\<rparr>"
    and w5: "w5 = roc_call_seq [SetDataPtrBCSR rp ci vs (nnzb be0) (Nb be0) (Nb be0) bs]
            (w4\<lparr>int_mem := (int_mem w4)(next_addr w0 := None, Suc (next_addr w0) := None),
               val_mem := (val_mem w4)(Suc (Suc (next_addr w0)) := None)\<rparr>)"
    by (auto simp: staging_def)
  show ?thesis
  proof (rule that [of w4 rp ci vs hx])
    show "0 \<le> Nb be0 + 1" "Nb be0 < INT_MAX" "0 \<le> nnzb be0"
      using b1 b2 by simp_all
    show "roc_CopyToData (roc_x_data lib) (h_x be0) = Inr hx"
      using cp be2 by simp
    show "be' = be0\<lparr>tmp_rowpointers := nullptr, tmp_colindices := nullptr,
                    tmp_nnzvalues := nullptr, h_x := hx\<rparr>"
      using fin(3) be2 by simp
    show "w' = summary_log be0 (GpuResult_of lib)
            (roc_call_seq (SetDataPtrBCSR rp ci vs (nnzb be0) (Nb be0) (Nb be0) bs #
                           calls_after_SetDataPtrBCSR b)
               (w4\<lparr>int_mem := (int_mem w4)(next_addr w0 := None, Suc (next_addr w0) := None),
                   val_mem := (val_mem w4)(Suc (Suc (next_addr w0)) := None)\<rparr>))"
      using fin(4) be2 w5 by (simp add: summary_log_def roc_call_seq_def)
  qed (fact cm arr fin)+
qed

lemma staging_simps [simp]:
  "Nb (fst (staging bs be w)) = Nb be"
  "nnzb (fst (staging bs be w)) = nnzb be"
  "verbosity (fst (staging bs be w)) = verbosity be"
  "h_x (fst (staging bs be w)) = h_x be"
  "tmp_rowpointers (fst (staging bs be w)) = next_addr w"
  "tmp_colindices (fst (staging bs be w)) = Suc (next_addr w)"
  "tmp_nnzvalues (fst (staging bs be w)) = Suc (Suc (next_addr w))"
  "int_mem (snd (staging bs be w)) =
     (int_mem w)(next_addr w \<mapsto> replicate (nat (Nb be + 1)) None,
                 Suc (next_addr w) \<mapsto> replicate (nat (nnzb be)) None)"
  "val_mem (snd (staging bs be w)) =
     (val_mem w)(Suc (Suc (next_addr w)) \<mapsto> replicate (nat (u32 (nnzb be * bs * bs))) None)"
  "roc_calls (snd (staging bs be w)) = roc_calls w"
  "next_addr (snd (staging bs be w)) = Suc (Suc (Suc (next_addr w)))"
  by (simp_all add: staging_def)

lemma roc_CopyToData_length:
  "roc_CopyToData xs hx = Inr hx' \<Longrightarrow> length hx' = length hx"
  by (auto simp: roc_CopyToData_def split: if_splits)

lemma summary_log_simps [simp]:
  "int_mem (summary_log be res w) = int_mem w"
  "val_mem (summary_log be res w) = val_mem w"
  "next_addr (summary_log be res w) = next_addr w"
  "roc_calls (summary_log be res w) = roc_calls w"
  by (simp_all add: summary_log_def OpmLog_info_def)

lemma roc_call_seq_simps [simp]:
  "int_mem (roc_call_seq cs w) = int_mem w"
  "val_mem (roc_call_seq cs w) = val_mem w"
  "next_addr (roc_call_seq cs w) = next_addr w"
  "roc_calls (roc_call_seq cs w) = roc_calls w @ cs"
  by (simp_all add: roc_call_seq_def)

lemma solve_system_partial:
  assumes ret: "solve_system bs ib be m b jac wells lib w = Inr (st, res, be', w')"
  shows "st = GPU_SOLVER_SUCCESS" and "res = GpuResult_of lib"
    and "\<exists>rp ci vs. roc_calls w' = roc_calls w @
           SetDataPtrBCSR rp ci vs (call_nnzb be m) (call_Nb be m) (call_Nb be m) bs #
           calls_after_SetDataPtrBCSR b \<and>
           length rp = nat (call_Nb be m + 1) \<and> length ci = nat (call_nnzb be m) \<and>
           length vs = nat (u32 (call_nnzb be m * bs * bs))"
    and "next_addr w' = next_addr w + 3"
    and "\<And>p. p < next_addr w \<Longrightarrow> int_mem w' p = int_mem w p \<and> val_mem w' p = val_mem w p"
    and "Nb be' = call_Nb be m" and "nnzb be' = call_nnzb be m" and "initialized be'"
    and "initialized be \<Longrightarrow> N be' = N be \<and> nnz be' = nnz be"
    and "length (h_x be') = length (call_h_x bs be m)"
    and "tmp_rowpointers be' = nullptr \<and> tmp_colindices be' = nullptr \<and> tmp_nnzvalues be' = nullptr"
proof -
  obtain be0 w0 where init: "(if initialized be = False then initialize bs be m w else (be, w)) = (be0, w0)"
    and i: "Nb be0 = call_Nb be m" "nnzb be0 = call_nnzb be m" "initialized be0"
      "h_x be0 = call_h_x bs be m" "initialized be \<Longrightarrow> be0 = be"
      "int_mem w0 = int_mem w" "val_mem w0 = val_mem w" "next_addr w0 = next_addr w"
      "roc_calls w0 = roc_calls w"
    by (rule init_cases [of be bs m w]) blast
  from ret init obtain w4 rp ci vs hx where
    cm: "convert_matrix bs ib (fst (staging bs be0 w0)) m (snd (staging bs be0 w0)) = Inr w4"
    and arr: "int_mem w4 (next_addr w0) = Some rp" "int_mem w4 (Suc (next_addr w0)) = Some ci"
      "val_mem w4 (Suc (Suc (next_addr w0))) = Some vs"
    and cp: "roc_CopyToData (roc_x_data lib) (h_x be0) = Inr hx"
    and fin: "st = GPU_SOLVER_SUCCESS" "res = GpuResult_of lib"
      "be' = be0\<lparr>tmp_rowpointers := nullptr, tmp_colindices := nullptr, tmp_nnzvalues := nullptr,
               h_x := hx\<rparr>"
      "w' = summary_log be0 (GpuResult_of lib)
            (roc_call_seq (SetDataPtrBCSR rp ci vs (nnzb be0) (Nb be0) (Nb be0) bs #
                           calls_after_SetDataPtrBCSR b)
               (w4\<lparr>int_mem := (int_mem w4)(next_addr w0 := None, Suc (next_addr w0) := None),
                   val_mem := (val_mem w4)(Suc (Suc (next_addr w0)) := None)\<rparr>))"
    by (rule solve_system_InrD)
  have ow: "only_wrote {next_addr w0, Suc (next_addr w0), Suc (Suc (next_addr w0))}
              (snd (staging bs be0 w0)) w4"
    using convert_matrix_only_wrote [OF cm] by simp
  have shape_int: "map_option length (int_mem w4 p) = map_option length (int_mem (snd (staging bs be0 w0)) p)"
    and shape_val: "map_option length (val_mem w4 p) = map_option length (val_mem (snd (staging bs be0 w0)) p)"
    for p
    using ow by (simp_all add: only_wrote_def)
  have len: "length rp = nat (call_Nb be m + 1)" "length ci = nat (call_nnzb be m)"
    "length vs = nat (u32 (call_nnzb be m * bs * bs))"
    using shape_int [of "next_addr w0"] shape_int [of "Suc (next_addr w0)"]
      shape_val [of "Suc (Suc (next_addr w0))"] arr
    by (simp_all add: i)
  show "st = GPU_SOLVER_SUCCESS" "res = GpuResult_of lib" by (fact fin)+
  have "roc_calls w' = roc_calls w @
           SetDataPtrBCSR rp ci vs (call_nnzb be m) (call_Nb be m) (call_Nb be m) bs #
           calls_after_SetDataPtrBCSR b"
    using ow by (simp add: fin(4) only_wrote_def i)
  with len show "\<exists>rp ci vs. roc_calls w' = roc_calls w @
           SetDataPtrBCSR rp ci vs (call_nnzb be m) (call_Nb be m) (call_Nb be m) bs #
           calls_after_SetDataPtrBCSR b \<and>
           length rp = nat (call_Nb be m + 1) \<and> length ci = nat (call_nnzb be m) \<and>
           length vs = nat (u32 (call_nnzb be m * bs * bs))"
    by blast
  show "next_addr w' = next_addr w + 3"
    using ow by (simp add: fin(4) only_wrote_def i)
  show "int_mem w' p = int_mem w p \<and> val_mem w' p = val_mem w p" if "p < next_addr w" for p
    using ow that by (simp add: fin(4) only_wrote_def i)
  show "Nb be' = call_Nb be m" "nnzb be' = call_nnzb be m" "initialized be'"
    by (simp_all add: fin(3) i)
  show "N be' = N be \<and> nnz be' = nnz be" if "initialized be"
    using i(5) [OF that] by (simp add: fin(3))
  show "length (h_x be') = length (call_h_x bs be m)"
    using roc_CopyToData_length [OF cp] by (simp add: fin(3) i)
  show "tmp_rowpointers be' = nullptr \<and> tmp_colindices be' = nullptr \<and> tmp_nnzvalues be' = nullptr"
    by (simp add: fin(3))
qed

lemma OpmLog_info_simps [simp]:
  "int_mem (OpmLog_info e w) = int_mem w"
  "val_mem (OpmLog_info e w) = val_mem w"
  "next_addr (OpmLog_info e w) = next_addr w"
  "roc_calls (OpmLog_info e w) = roc_calls w"
  by (simp_all add: OpmLog_info_def)

lemma readable_Some:
  "readable n (Some xs) \<longleftrightarrow> n \<le> length xs \<and> None \<notin> set (take n xs)"
  by (simp add: readable_def)

lemma u32_small: "0 \<le> x \<Longrightarrow> x < 4294967296 \<Longrightarrow> u32 x = x"
  by (simp add: u32_def)

lemma solve_system_total:
  assumes ws: "well_sized bs ib be m lib w"
    and rp: "int_mem w (rowPointers m) = Some rp"
    and ci: "int_mem w (colIndices m) = Some ci"
    and vs: "ib = 0 \<Longrightarrow> val_mem w (nnzValues m) = Some vs"
  shows "\<exists>res be' w' V.
     solve_system bs ib be m b jac wells lib w = Inr (GPU_SOLVER_SUCCESS, res, be', w') \<and>
     roc_calls w' = roc_calls w @
       SetDataPtrBCSR (take (nat (call_Nb be m + 1)) rp) (take (nat (call_nnzb be m)) ci) V
         (call_nnzb be m) (call_Nb be m) (call_Nb be m) bs #
       calls_after_SetDataPtrBCSR b \<and>
     (ib \<noteq> 0 \<longrightarrow> V = replicate (nat (u32 (call_nnzb be m * bs * bs))) None) \<and>
     (ib = 0 \<and> bs = 3 \<longrightarrow> V = transpose3_blocks (nat (call_nnzb be m)) vs)"
proof -
  obtain be0 w0 where init: "(if initialized be = False then initialize bs be m w else (be, w)) = (be0, w0)"
    and i: "Nb be0 = call_Nb be m" "nnzb be0 = call_nnzb be m"
      "h_x be0 = call_h_x bs be m"
      "int_mem w0 = int_mem w" "val_mem w0 = val_mem w" "next_addr w0 = next_addr w"
      "roc_calls w0 = roc_calls w"
    by (rule init_cases [of be bs m w]) blast
  let ?nb = "call_Nb be m" and ?nz = "call_nnzb be m"
  let ?be1 = "fst (staging bs be0 w0)" and ?w3 = "snd (staging bs be0 w0)"
  from ws have b: "0 \<le> ?nb + 1" "?nb < INT_MAX" "0 \<le> ?nz"
    and below: "rowPointers m < next_addr w" "colIndices m < next_addr w"
    and rrp: "nat (?nb + 1) \<le> length rp" "None \<notin> set (take (nat (?nb + 1)) rp)"
    and rci: "nat ?nz \<le> length ci" "None \<notin> set (take (nat ?nz) ci)"
    and len: "length (roc_x_data lib) \<le> length (call_h_x bs be m)"
    by (simp_all add: well_sized_def rp ci readable_Some)
  have col: "3 \<le> bs \<and> ?nz * bs * bs < 4294967296 \<and> nnzValues m < next_addr w \<and>
             nat (?nz * bs * bs) \<le> length vs \<and> None \<notin> set (take (nat (?nz * bs * bs)) vs)"
    if "ib = 0"
    using ws that vs [OF that] by (simp add: well_sized_def readable_Some)
  have "\<exists>V. convert_matrix bs ib ?be1 m ?w3 =
     Inr ((if verbosity ?be1 \<ge> 3 then OpmLog_info Convert_matrix_time else id)
       (?w3\<lparr>int_mem := (int_mem ?w3)(tmp_rowpointers ?be1 \<mapsto> take (nat (Nb ?be1 + 1)) rp,
                                 tmp_colindices ?be1 \<mapsto> take (nat (nnzb ?be1)) ci),
          val_mem := (if ib = 0 then (val_mem ?w3)(tmp_nnzvalues ?be1 \<mapsto> V) else val_mem ?w3)\<rparr>)) \<and>
     (ib = 0 \<longrightarrow> length V = nat (nnzb ?be1 * bs * bs)) \<and>
     (ib = 0 \<and> bs = 3 \<longrightarrow> V = transpose3_blocks (nat (nnzb ?be1)) vs)"
  proof (rule convert_matrix_total)
    show "ib = 0 \<Longrightarrow> 3 \<le> bs \<and> val_mem ?w3 (nnzValues m) = Some vs \<and>
      nat (nnzb ?be1 * bs * bs) \<le> length vs \<and>
      None \<notin> set (take (nat (nnzb ?be1 * bs * bs)) vs) \<and>
      val_mem ?w3 (tmp_nnzvalues ?be1) = Some (replicate (nat (nnzb ?be1 * bs * bs)) None) \<and>
      nnzValues m \<noteq> tmp_nnzvalues ?be1 \<and> nnzb ?be1 * bs * bs \<le> 4294967296"
    proof -
      assume ib: "ib = 0"
      note c = col [OF ib]
      have "0 \<le> ?nz * bs * bs" using b(3) c by simp
      then have "u32 (?nz * bs * bs) = ?nz * bs * bs"
        using c by (intro u32_small) simp_all
      then show ?thesis
        using c vs [OF ib] by (simp add: i)
    qed
  qed (use b below rrp rci rp ci in \<open>simp_all add: i\<close>)
  then obtain V0 where cm: "convert_matrix bs ib ?be1 m ?w3 =
     Inr ((if verbosity ?be1 \<ge> 3 then OpmLog_info Convert_matrix_time else id)
       (?w3\<lparr>int_mem := (int_mem ?w3)(tmp_rowpointers ?be1 \<mapsto> take (nat (Nb ?be1 + 1)) rp,
                                 tmp_colindices ?be1 \<mapsto> take (nat (nnzb ?be1)) ci),
          val_mem := (if ib = 0 then (val_mem ?w3)(tmp_nnzvalues ?be1 \<mapsto> V0) else val_mem ?w3)\<rparr>))"
    and V0: "ib = 0 \<and> bs = 3 \<longrightarrow> V0 = transpose3_blocks (nat (nnzb ?be1)) vs"
    by blast
  let ?w4 = "(if verbosity ?be1 \<ge> 3 then OpmLog_info Convert_matrix_time else id)
       (?w3\<lparr>int_mem := (int_mem ?w3)(tmp_rowpointers ?be1 \<mapsto> take (nat (Nb ?be1 + 1)) rp,
                                 tmp_colindices ?be1 \<mapsto> take (nat (nnzb ?be1)) ci),
          val_mem := (if ib = 0 then (val_mem ?w3)(tmp_nnzvalues ?be1 \<mapsto> V0) else val_mem ?w3)\<rparr>)"
  let ?V = "if ib = 0 then V0 else replicate (nat (u32 (?nz * bs * bs))) None"
  have arr: "int_mem ?w4 (tmp_rowpointers ?be1) = Some (take (nat (?nb + 1)) rp)"
    "int_mem ?w4 (tmp_colindices ?be1) = Some (take (nat ?nz) ci)"
    "val_mem ?w4 (tmp_nnzvalues ?be1) = Some ?V"
    by (simp_all add: i OpmLog_info_def)
  note sd = roc_SetDataPtrBCSR_Inr [OF arr, of bs]
  have cp: "roc_CopyToData (roc_x_data lib) (call_h_x bs be m) =
            Inr (roc_x_data lib @ drop (length (roc_x_data lib)) (call_h_x bs be m))"
    using len by (simp add: roc_CopyToData_def)
  have nb: "\<not> (INT_MAX < Nb be0 + 1 \<or> Nb be0 + 1 < - INT_MAX - 1)"
    "\<not> (Nb be0 + 1 < 0 \<or> nnzb be0 < 0)"
    using b by (simp_all add: i INT_MAX_def)
  have "\<exists>res be' w'.
     solve_system bs ib be m b jac wells lib w = Inr (GPU_SOLVER_SUCCESS, res, be', w') \<and>
     roc_calls w' = roc_calls w @
       SetDataPtrBCSR (take (nat (call_Nb be m + 1)) rp) (take (nat (call_nnzb be m)) ci) ?V
         (call_nnzb be m) (call_Nb be m) (call_Nb be m) bs #
       calls_after_SetDataPtrBCSR b"
    unfolding solve_system_cases [OF init]
    by (simp only: nb if_False cm and_then_Inr sd prod.case)
      (simp add: i cp)
  moreover have "ib \<noteq> 0 \<longrightarrow> ?V = replicate (nat (u32 (call_nnzb be m * bs * bs))) None"
    by simp
  moreover have "ib = 0 \<and> bs = 3 \<longrightarrow> ?V = transpose3_blocks (nat (call_nnzb be m)) vs"
    using V0 by (simp add: i)
  ultimately show ?thesis by blast
qed

lemma nth_in_take: "j < k \<Longrightarrow> k \<le> length xs \<Longrightarrow> xs ! j \<in> set (take k xs)"
  by (metis length_take min.absorb2 nth_mem nth_take)

lemma set_transpose3_blocks:
  assumes "9 * n \<le> length xs"
  shows "set (transpose3_blocks n xs) \<subseteq> set (take (9 * n) xs)"
  using assms
proof (induction n)
  case 0
  then show ?case by (simp add: transpose3_blocks_def)
next
  case (Suc n)
  then have "set (transpose3_blocks n xs) \<subseteq> set (take (9 * n) xs)" by simp
  also have "\<dots> \<subseteq> set (take (9 * Suc n) xs)"
    by (rule set_take_subset_set_take) simp
  finally have "set (transpose3_blocks n xs) \<subseteq> set (take (9 * Suc n) xs)" .
  moreover have m: "xs ! (9 * n + k) \<in> set (take (9 * Suc n) xs)" if "k < 9" for k
    using that Suc.prems by (intro nth_in_take) simp_all
  ultimately show ?case
    using m [of 0] m [of 1] m [of 2] m [of 3] m [of 4] m [of 5] m [of 6] m [of 7] m [of 8]
    by (simp add: transpose3_blocks_Suc)
qed

subsection \<open>The example inputs\<close>

lemmas example_defs = example_world_def matrix_A_def fresh_backend_def rhs_A_def
  answers_relative_def no_wells_def

lemmas model_defs = solve_system_def initialize_def Let_def
  and_then_def int_add_def INT_MAX_def new_int_array_def new_val_array_def convert_matrix_def
  for_loop.simps copy_int_def transpose_block_def copy_val_def
  block_index_def u32_def s32_def read_int_def write_int_def read_val_def write_val_def
  roc_SetDataPtrBCSR_def roc_call_seq_def OpmLog_info_def roc_CopyToData_def resize_def
  double_of_int_def nullptr_def eval_nat_numeral

lemma well_sized_A:
  assumes "length (roc_x_data lib) \<le> 3"
  shows "well_sized 3 0 fresh_backend matrix_A lib example_world"
  using assms
  by (simp add: well_sized_def call_Nb_def call_nnzb_def call_h_x_def readable_def INT_MAX_def
      resize_def u32_def example_defs)

lemma well_sized_malformed:
  assumes "length (roc_x_data lib) \<le> 3"
  shows "well_sized 3 0 fresh_backend matrix_malformed lib example_world"
  using assms
  by (simp add: well_sized_def call_Nb_def call_nnzb_def call_h_x_def readable_def INT_MAX_def
      resize_def u32_def matrix_malformed_def example_defs)

lemma well_sized_A_row_major:
  assumes "length (roc_x_data lib) \<le> 3"
  shows "well_sized 3 1 fresh_backend matrix_A lib example_world"
  using assms
  by (simp add: well_sized_def call_Nb_def call_nnzb_def call_h_x_def readable_def INT_MAX_def
      resize_def u32_def example_defs)

lemma arrays_A:
  "int_mem example_world (rowPointers matrix_A) = Some [Some 0, Some 1]"
  "int_mem example_world (colIndices matrix_A) = Some [Some 0]"
  "val_mem example_world (nnzValues matrix_A) = Some (map Some [10, 11, 12, 13, 14, 15, 16, 17, 18])"
  by (simp_all add: example_defs)

lemma arrays_malformed:
  "int_mem example_world (rowPointers matrix_malformed) = Some [Some 0, Some 5, Some 5]"
  "int_mem example_world (colIndices matrix_malformed) = Some [Some 7]"
  "val_mem example_world (nnzValues matrix_malformed) = Some (map Some [10, 11, 12, 13, 14, 15, 16, 17, 18])"
  by (simp_all add: matrix_malformed_def example_defs)

lemma solve_A:
  assumes "length (roc_x_data lib) \<le> 3"
  shows "\<exists>res be' w'.
     solve_system 3 0 fresh_backend matrix_A b jac wells lib example_world =
       Inr (GPU_SOLVER_SUCCESS, res, be', w') \<and>
     roc_calls w' =
       SetDataPtrBCSR [Some 0, Some 1] [Some 0] (map Some [10, 13, 16, 11, 14, 17, 12, 15, 18])
         1 1 1 3 # calls_after_SetDataPtrBCSR b"
  using solve_system_total [OF well_sized_A [OF assms] arrays_A(1) arrays_A(2) arrays_A(3),
      of b jac wells]
  by (simp add: call_Nb_def call_nnzb_def transpose3_blocks_def example_defs)

lemma arrays_B:
  "int_mem example_world (rowPointers matrix_B) = Some [Some 0, Some 1, Some 2]"
  "int_mem example_world (colIndices matrix_B) = Some [Some 0, Some 1]"
  "val_mem example_world (nnzValues matrix_B) =
     Some (map Some [10, 11, 12, 13, 14, 15, 16, 17, 18, 20, 21, 22, 23, 24, 25, 26, 27, 28])"
  by (simp_all add: matrix_B_def example_defs)

lemma solve_B_after_A:
  assumes r1: "solve_system 3 0 fresh_backend matrix_A b1 jac1 wells1 lib1 example_world =
      Inr (st1, res1, be1, w1)"
    and l2: "length (roc_x_data lib2) \<le> 3"
  shows "\<exists>res2 be2 w2.
     solve_system 3 0 be1 matrix_B b2 jac2 wells2 lib2 w1 = Inr (GPU_SOLVER_SUCCESS, res2, be2, w2) \<and>
     roc_calls w2 = roc_calls w1 @
       SetDataPtrBCSR [Some 0, Some 1] [Some 0] (map Some [10, 13, 16, 11, 14, 17, 12, 15, 18])
         1 1 1 3 # calls_after_SetDataPtrBCSR b2"
proof -
  note p = solve_system_partial [OF r1]
  have be1: "initialized be1" "Nb be1 = 1" "nnzb be1 = 1" "length (h_x be1) = 3"
    using p(6,7,8,10)
    by (simp_all add: call_Nb_def call_nnzb_def call_h_x_def resize_def u32_def example_defs)
  have nxt: "next_addr w1 = 15"
    using p(4) by (simp add: example_defs)
  have same: "int_mem w1 p = int_mem example_world p \<and> val_mem w1 p = val_mem example_world p"
    if "p < 12" for p
    using p(5) [of p] that by (simp add: example_defs)
  have arr: "int_mem w1 (rowPointers matrix_B) = Some [Some 0, Some 1, Some 2]"
    "int_mem w1 (colIndices matrix_B) = Some [Some 0, Some 1]"
    "val_mem w1 (nnzValues matrix_B) =
       Some (map Some [10, 11, 12, 13, 14, 15, 16, 17, 18, 20, 21, 22, 23, 24, 25, 26, 27, 28])"
    using same [of "rowPointers matrix_B"] same [of "colIndices matrix_B"]
      same [of "nnzValues matrix_B"] arrays_B
    by (simp_all add: matrix_B_def)
  have ws: "well_sized 3 0 be1 matrix_B lib2 w1"
    using be1 l2 nxt arr
    by (simp add: well_sized_def call_Nb_def call_nnzb_def call_h_x_def readable_def INT_MAX_def
        matrix_B_def)
  from solve_system_total [OF ws arr(1) arr(2) arr(3), of b2 jac2 wells2]
  show ?thesis
    using be1 by (simp add: call_Nb_def call_nnzb_def transpose3_blocks_def)
qed

subsection \<open>Blocks of size 3\<close>

text \<open>
  For block size 3 the table of \<^verbatim>\<open>convert_matrix\<close> is the transposition of the
  specification, and applying it twice gives the values back.
\<close>

lemma transpose_blocks_3: "transpose_blocks 3 n xs = transpose3_blocks n xs"
proof -
  have "[0..<3 * 3] = [0, 1, 2, 3, 4, 5, 6, 7, 8 :: nat]"
    by (simp add: upt_rec)
  then show ?thesis
    by (simp add: transpose_blocks_def transpose3_blocks_def add.commute)
qed

lemma transpose3_blocks_append:
  assumes "9 * n \<le> length A"
  shows "transpose3_blocks n (A @ B) = transpose3_blocks n A"
  using assms
proof (induction n)
  case 0
  then show ?case by (simp add: transpose3_blocks_def)
next
  case (Suc n)
  then show ?case
    by (simp add: transpose3_blocks_Suc nth_append)
qed

lemma take_9:
  assumes "9 \<le> length ys"
  shows "take 9 ys = [ys ! 0, ys ! 1, ys ! 2, ys ! 3, ys ! 4, ys ! 5, ys ! 6, ys ! 7, ys ! 8]"
proof -
  have "take 9 ys = map ((!) (take 9 ys)) [0..<length (take 9 ys)]"
    by (simp only: map_nth)
  also have "\<dots> = map ((!) ys) [0..<9]"
    using assms by (intro map_cong) simp_all
  also have "[0..<9] = [0, 1, 2, 3, 4, 5, 6, 7, 8 :: nat]"
    by (simp add: upt_rec)
  finally show ?thesis by simp
qed

lemma take_nine:
  assumes "9 * n + 9 \<le> length xs"
  shows "take (9 * Suc n) xs =
     take (9 * n) xs @ [xs ! (9 * n + 0), xs ! (9 * n + 1), xs ! (9 * n + 2), xs ! (9 * n + 3),
       xs ! (9 * n + 4), xs ! (9 * n + 5), xs ! (9 * n + 6), xs ! (9 * n + 7), xs ! (9 * n + 8)]"
proof -
  have "take (9 * Suc n) xs = take (9 * n + 9) xs" by (simp add: add.commute)
  also have "\<dots> = take (9 * n) xs @ take 9 (drop (9 * n) xs)"
    by (simp only: take_add)
  also have "take 9 (drop (9 * n) xs) =
     [xs ! (9 * n + 0), xs ! (9 * n + 1), xs ! (9 * n + 2), xs ! (9 * n + 3),
       xs ! (9 * n + 4), xs ! (9 * n + 5), xs ! (9 * n + 6), xs ! (9 * n + 7), xs ! (9 * n + 8)]"
    using assms by (subst take_9) simp_all
  finally show ?thesis .
qed

lemma transpose3_blocks_involution:
  assumes "9 * n \<le> length xs"
  shows "transpose3_blocks n (transpose3_blocks n xs) = take (9 * n) xs"
  using assms
proof (induction n)
  case 0
  then show ?case by (simp add: transpose3_blocks_def)
next
  case (Suc n)
  let ?B = "map (\<lambda>k. xs ! (9 * n + k)) [0, 3, 6, 1, 4, 7, 2, 5, 8]"
  have ys: "transpose3_blocks (Suc n) xs = transpose3_blocks n xs @ ?B"
    by (rule transpose3_blocks_Suc)
  have 1: "transpose3_blocks n (transpose3_blocks n xs @ ?B) = take (9 * n) xs"
    using Suc by (simp add: transpose3_blocks_append)
  have 2: "map (\<lambda>k. (transpose3_blocks n xs @ ?B) ! (9 * n + k)) [0, 3, 6, 1, 4, 7, 2, 5, 8] =
        [xs ! (9 * n + 0), xs ! (9 * n + 1), xs ! (9 * n + 2), xs ! (9 * n + 3),
         xs ! (9 * n + 4), xs ! (9 * n + 5), xs ! (9 * n + 6), xs ! (9 * n + 7), xs ! (9 * n + 8)]"
    by (simp add: nth_append)
  show ?case
    unfolding ys transpose3_blocks_Suc [of n "transpose3_blocks n xs @ ?B"] 1 2
    using take_nine [of n xs] Suc.prems by simp
qed

section \<open>The properties\<close>

subsection \<open>The convergence flag\<close>

text \<open>
  C1, as the code has it. Whenever \<^verbatim>\<open>solve_system\<close> returns, the flag \<^verbatim>\<open>converged\<close> of
  the result is true exactly when \<^verbatim>\<open>GetSolverStatus()\<close> is 2, the relative tolerance
  reached. Every other status, the absolute tolerance reached (1) among them, gives
  false.
\<close>

theorem converged_iff_relative_tolerance_reached:
  assumes "solve_system bs ib be m b jac wells lib w = Inr (st, res, be', w')"
  shows "converged res \<longleftrightarrow> GetSolverStatus lib = relative_tolerance_reached"
  using solve_system_partial(2) [OF assms]
  by (simp add: GpuResult_of_def relative_tolerance_reached_def)

text \<open>A call that ends with the relative tolerance reached reports convergence.\<close>

theorem converged_iff_relative_tolerance_reached_witness:
  "\<exists>st res be' w'.
     solve_system 3 0 fresh_backend matrix_A rhs_A None no_wells answers_relative example_world =
       Inr (st, res, be', w') \<and>
     GetSolverStatus answers_relative = relative_tolerance_reached \<and> converged res"
proof -
  obtain res be' w' where r:
    "solve_system 3 0 fresh_backend matrix_A rhs_A None no_wells answers_relative example_world =
       Inr (GPU_SOLVER_SUCCESS, res, be', w')"
    using solve_A [of answers_relative rhs_A None no_wells]
    by (auto simp: answers_relative_def)
  have s: "GetSolverStatus answers_relative = relative_tolerance_reached"
    by (simp add: answers_relative_def relative_tolerance_reached_def)
  with converged_iff_relative_tolerance_reached [OF r] have "converged res" by simp
  with r s show ?thesis by blast
qed

text \<open>
  C1 as stated fails: a call that ends with the absolute tolerance reached, its
  residual 0, reports \<^verbatim>\<open>converged = false\<close>.
\<close>

theorem absolute_tolerance_reached_not_converged:
  "\<exists>st res be' w'.
     solve_system 3 0 fresh_backend matrix_A rhs_A None no_wells answers_absolute example_world =
       Inr (st, res, be', w') \<and>
     GetSolverStatus answers_absolute = absolute_tolerance_reached \<and>
     GetCurrentResidual answers_absolute = Finite 0 \<and> \<not> converged res"
proof -
  obtain res be' w' where r:
    "solve_system 3 0 fresh_backend matrix_A rhs_A None no_wells answers_absolute example_world =
       Inr (GPU_SOLVER_SUCCESS, res, be', w')"
    using solve_A [of answers_absolute rhs_A None no_wells]
    by (auto simp: answers_absolute_def)
  have "res = GpuResult_of answers_absolute"
    by (rule solve_system_partial(2) [OF r])
  then have "\<not> converged res"
    by (simp add: GpuResult_of_def answers_absolute_def)
  with r show ?thesis
    by (auto simp: answers_absolute_def absolute_tolerance_reached_def)
qed

subsection \<open>Block sizes other than 3\<close>

text \<open>
  C2 at block size 4, \<^verbatim>\<open>BCSR_IND_BASE == 0\<close>. For the one block of \<open>matrix_4\<close>, with the
  values 0 to 15, \<^verbatim>\<open>convert_matrix\<close> writes nine of the sixteen cells of the staging
  array, by the table for 3 by 3 blocks, and leaves seven unwritten; the
  transposition of the block is another sequence.
\<close>

theorem convert_matrix_block_size_4:
  "\<exists>res be' w'.
     solve_system 4 0 fresh_backend matrix_4 [3, 0, 4, 0] None no_wells answers_relative
       example_world = Inr (GPU_SOLVER_SUCCESS, res, be', w') \<and>
     hd (roc_calls w') =
       SetDataPtrBCSR [Some 0, Some 1] [Some 0]
         (map Some [0, 3, 6, 1, 4, 7, 2, 5, 8] @ [None, None, None, None, None, None, None])
         1 1 1 4 \<and>
     transpose_blocks 4 1 [0, 1, 2, 3, 4, 5, 6, 7, 8, 9, 10, 11, 12, 13, 14, 15 :: real] =
       [0, 4, 8, 12, 1, 5, 9, 13, 2, 6, 10, 14, 3, 7, 11, 15]"
proof -
  have "[0..<4 * 4] = [0, 1, 2, 3, 4, 5, 6, 7, 8, 9, 10, 11, 12, 13, 14, 15 :: nat]"
    by (simp add: upt_rec)
  then have "transpose_blocks 4 1 [0, 1, 2, 3, 4, 5, 6, 7, 8, 9, 10, 11, 12, 13, 14, 15 :: real] =
       [0, 4, 8, 12, 1, 5, 9, 13, 2, 6, 10, 14, 3, 7, 11, 15]"
    by (simp add: transpose_blocks_def)
  then show ?thesis
    by (simp add: matrix_4_def example_defs model_defs)
qed

text \<open>
  C3 at block sizes 1 and 2, \<^verbatim>\<open>BCSR_IND_BASE == 0\<close>. For one block, the loop body of
  \<^verbatim>\<open>convert_matrix\<close> reads \<^verbatim>\<open>nnzValues\<close> at the offsets 3 and 6, outside the one cell
  and the four cells of the block; there is no converted sequence to convert back.
  \<^item> \<^verbatim>\<open>convert_matrix\<close> itself, called as \<^verbatim>\<open>solve_system\<close> calls it, after \<^verbatim>\<open>initialize\<close>
    and the three \<^verbatim>\<open>new\<close>, leaves its arrays.
  \<^item> So does the whole call, with a solution vector of the size of \<^verbatim>\<open>h_x\<close>.
  \<^item> The same two calls with \<^verbatim>\<open>BCSR_IND_BASE == 1\<close>, where the loop over the blocks does
    not run, return: the loop over the blocks is what leaves the arrays.
\<close>

theorem convert_matrix_block_sizes_1_and_2:
  "(let (be, w) = initialize 1 fresh_backend matrix_1 example_world;
        (be, w) = staging 1 be w
    in convert_matrix 1 0 be matrix_1 w) = Inl OutOfBounds \<and>
   (let (be, w) = initialize 2 fresh_backend matrix_2 example_world;
        (be, w) = staging 2 be w
    in convert_matrix 2 0 be matrix_2 w) = Inl OutOfBounds \<and>
   solve_system 1 0 fresh_backend matrix_1 [3] None no_wells answers_1 example_world =
     Inl OutOfBounds \<and>
   solve_system 2 0 fresh_backend matrix_2 [3, 4] None no_wells answers_2 example_world =
     Inl OutOfBounds \<and>
   (\<exists>res be' w'.
      solve_system 1 1 fresh_backend matrix_1 [3] None no_wells answers_1 example_world =
        Inr (GPU_SOLVER_SUCCESS, res, be', w')) \<and>
   (\<exists>res be' w'.
      solve_system 2 1 fresh_backend matrix_2 [3, 4] None no_wells answers_2 example_world =
        Inr (GPU_SOLVER_SUCCESS, res, be', w'))"
  by (simp add: matrix_1_def matrix_2_def answers_1_def answers_2_def staging_def
      example_defs model_defs)

subsection \<open>The convergence rate\<close>

text \<open>
  C4, as the code has it. Whenever \<^verbatim>\<open>solve_system\<close> returns, \<^verbatim>\<open>conv_rate\<close> is
  \<^verbatim>\<open>pow(reduction, 1.0 / iterations)\<close>, computed with no guard on \<^verbatim>\<open>iterations\<close>.
  \<^item> For \<^verbatim>\<open>iterations == 0\<close> the exponent \<^verbatim>\<open>1.0 / 0\<close> is \<open>+\<infinity>\<close> and the value is
    \<^verbatim>\<open>pow(reduction, +inf)\<close>, which is 1.0 exactly when \<^verbatim>\<open>reduction\<close> is 1 or -1.
  \<^item> For \<^verbatim>\<open>iterations > 0\<close> and a finite \<^verbatim>\<open>reduction\<close> \<open>r \<ge> 0\<close> the value is \<open>r\<close> to the power
    \<open>1 / iterations\<close>.
\<close>

theorem conv_rate_is_unguarded_pow:
  assumes "solve_system bs ib be m b jac wells lib w = Inr (st, res, be', w')"
  shows "conv_rate res = pow (reduction res) (double_div (Finite 1) (double_of_int (iterations res))) \<and>
    (iterations res = 0 \<longrightarrow>
       conv_rate res = pow (reduction res) PosInf \<and>
       (conv_rate res = Finite 1 \<longleftrightarrow> (\<exists>r. reduction res = Finite r \<and> \<bar>r\<bar> = 1))) \<and>
    (0 < iterations res \<longrightarrow>
       (\<forall>r. reduction res = Finite r \<and> 0 \<le> r \<longrightarrow>
            conv_rate res = Finite (r powr (1 / real_of_int (iterations res)))))"
proof -
  have res: "res = GpuResult_of lib"
    by (rule solve_system_partial(2) [OF assms])
  have 1: "conv_rate res = pow (reduction res) (double_div (Finite 1) (double_of_int (iterations res)))"
    by (simp add: res GpuResult_of_def)
  have 2: "conv_rate res = pow (reduction res) PosInf" if "iterations res = 0"
    using that by (simp add: 1 double_of_int_def)
  have 3: "conv_rate res = Finite (r powr (1 / real_of_int (iterations res)))"
    if "0 < iterations res" "reduction res = Finite r" "0 \<le> r" for r
    using that by (simp add: 1 double_of_int_def pow_finite_def)
  have 4: "conv_rate res = Finite 1 \<longleftrightarrow> (\<exists>r. reduction res = Finite r \<and> \<bar>r\<bar> = 1)"
    if "iterations res = 0"
    unfolding 2 [OF that] by (rule pow_PosInf_eq_one)
  show ?thesis
  proof (intro conjI impI allI)
    show "conv_rate res = pow (reduction res) (double_div (Finite 1) (double_of_int (iterations res)))"
      by (rule 1)
    show "conv_rate res = pow (reduction res) PosInf" if "iterations res = 0"
      by (rule 2 [OF that])
    show "conv_rate res = Finite 1 \<longleftrightarrow> (\<exists>r. reduction res = Finite r \<and> \<bar>r\<bar> = 1)"
      if "iterations res = 0"
      by (rule 4 [OF that])
    show "conv_rate res = Finite (r powr (1 / real_of_int (iterations res)))"
      if "0 < iterations res" "reduction res = Finite r \<and> 0 \<le> r" for r
      using 3 [of r] that by blast
  qed
qed

text \<open>
  Two calls: one with two iterations, and one with a zero right-hand side that
  ends before the first iteration, where \<^verbatim>\<open>reduction\<close> is \<open>0 / 0\<close>.
\<close>

theorem conv_rate_is_unguarded_pow_witness:
  "\<exists>st res be' w' st0 res0 be0 w0.
     solve_system 3 0 fresh_backend matrix_A rhs_A None no_wells answers_relative example_world =
       Inr (st, res, be', w') \<and>
     iterations res = 2 \<and> reduction res = Finite (1 / 5000) \<and>
     conv_rate res = Finite ((1 / 5000) powr (1 / 2)) \<and>
     solve_system 3 0 fresh_backend matrix_A rhs_zero None no_wells answers_zero_rhs example_world =
       Inr (st0, res0, be0, w0) \<and>
     iterations res0 = 0 \<and> conv_rate res0 = pow (reduction res0) PosInf \<and>
     conv_rate res0 \<noteq> Finite 1"
proof -
  obtain res be' w' where r:
    "solve_system 3 0 fresh_backend matrix_A rhs_A None no_wells answers_relative example_world =
       Inr (GPU_SOLVER_SUCCESS, res, be', w')"
    using solve_A [of answers_relative rhs_A None no_wells]
    by (auto simp: answers_relative_def)
  obtain res0 be0 w0 where r0:
    "solve_system 3 0 fresh_backend matrix_A rhs_zero None no_wells answers_zero_rhs example_world =
       Inr (GPU_SOLVER_SUCCESS, res0, be0, w0)"
    using solve_A [of answers_zero_rhs rhs_zero None no_wells]
    by (auto simp: answers_zero_rhs_def)
  have f: "iterations res = 2" "reduction res = Finite (1 / 5000)"
    using solve_system_partial(2) [OF r] by (simp_all add: GpuResult_of_def answers_relative_def)
  have f0: "iterations res0 = 0" "reduction res0 = NaN"
    using solve_system_partial(2) [OF r0] by (simp_all add: GpuResult_of_def answers_zero_rhs_def)
  note t = conv_rate_is_unguarded_pow [OF r]
  note t0 = conv_rate_is_unguarded_pow [OF r0]
  from t have "0 < iterations res \<longrightarrow>
       (\<forall>r. reduction res = Finite r \<and> 0 \<le> r \<longrightarrow>
            conv_rate res = Finite (r powr (1 / real_of_int (iterations res))))"
    by (elim conjE)
  then have "conv_rate res = Finite ((1 / 5000) powr (1 / real_of_int 2))"
    using f by (metis divide_nonneg_pos zero_less_numeral zero_le_one)
  then have c: "conv_rate res = Finite ((1 / 5000) powr (1 / 2))" by simp
  from t0 have "iterations res0 = 0 \<longrightarrow>
       conv_rate res0 = pow (reduction res0) PosInf \<and>
       (conv_rate res0 = Finite 1 \<longleftrightarrow> (\<exists>r. reduction res0 = Finite r \<and> \<bar>r\<bar> = 1))"
    by (elim conjE)
  with f0 have c0: "conv_rate res0 = pow (reduction res0) PosInf" "conv_rate res0 \<noteq> Finite 1"
    by simp_all
  show ?thesis
    using r r0 f f0(1) c c0 by blast
qed

text \<open>
  C4 as stated fails: for the zero right-hand side the call reports
  \<^verbatim>\<open>iterations == 0\<close> and a \<^verbatim>\<open>conv_rate\<close> that is not a number, not 1.0.
\<close>

theorem conv_rate_zero_iterations_not_one:
  "\<exists>st res be' w'.
     solve_system 3 0 fresh_backend matrix_A rhs_zero None no_wells answers_zero_rhs example_world =
       Inr (st, res, be', w') \<and>
     iterations res = 0 \<and> conv_rate res = NaN \<and> conv_rate res \<noteq> Finite 1"
proof -
  obtain res be' w' where r:
    "solve_system 3 0 fresh_backend matrix_A rhs_zero None no_wells answers_zero_rhs example_world =
       Inr (GPU_SOLVER_SUCCESS, res, be', w')"
    using solve_A [of answers_zero_rhs rhs_zero None no_wells]
    by (auto simp: answers_zero_rhs_def)
  have "res = GpuResult_of answers_zero_rhs"
    by (rule solve_system_partial(2) [OF r])
  then have "iterations res = 0" "conv_rate res = NaN"
    by (simp_all add: GpuResult_of_def answers_zero_rhs_def double_of_int_def)
  with r show ?thesis by auto
qed

subsection \<open>Malformed matrices\<close>

text \<open>
  C5, as the code has it. \<^verbatim>\<open>convert_matrix\<close> and \<^verbatim>\<open>solve_system\<close> check nothing about
  the row pointers and column indices, and repair nothing. On every call that stays
  within its arrays and within 32 bits (\<open>well_sized\<close>), that is
  \<^item> the dimensions of the call satisfy \<open>-1 \<le> Nb < INT_MAX\<close> and \<open>0 \<le> nnzb\<close>,
  \<^item> \<^verbatim>\<open>rowPointers\<close> and \<^verbatim>\<open>colIndices\<close> hold \<open>Nb + 1\<close> and \<open>nnzb\<close> written cells at least,
  \<^item> under \<^verbatim>\<open>BCSR_IND_BASE == 0\<close> the block size is 3 at least, \<open>nnzb * block_size *
    block_size\<close> is below \<open>2\<^sup>3\<^sup>2\<close> and \<^verbatim>\<open>nnzValues\<close> holds that many written cells at least,
  \<^item> the solution vector of the library is not longer than \<^verbatim>\<open>h_x\<close>,

  the first \<open>Nb + 1\<close> row pointers and the first \<open>nnzb\<close> column indices are handed to the
  library as they are, whatever their values, \<^verbatim>\<open>Solve\<close> runs and the call returns
  \<^verbatim>\<open>GPU_SOLVER_SUCCESS\<close>. Nothing is said here about the other calls.
\<close>

theorem solve_system_checks_no_structure:
  assumes "well_sized bs ib be m lib w"
    and "int_mem w (rowPointers m) = Some rp"
    and "int_mem w (colIndices m) = Some ci"
    and "ib = 0 \<Longrightarrow> val_mem w (nnzValues m) = Some vs"
  shows "\<exists>res be' w' vals.
     solve_system bs ib be m b jac wells lib w = Inr (GPU_SOLVER_SUCCESS, res, be', w') \<and>
     roc_calls w' = roc_calls w @
       SetDataPtrBCSR (take (nat (call_Nb be m + 1)) rp) (take (nat (call_nnzb be m)) ci) vals
         (call_nnzb be m) (call_Nb be m) (call_Nb be m) bs #
       calls_after_SetDataPtrBCSR b"
  using solve_system_total [OF assms, of b jac wells] by blast

text \<open>The row pointers 0, 5 and the column index 7 of \<open>matrix_malformed\<close> reach the library.\<close>

theorem solve_system_checks_no_structure_witness:
  "\<exists>res be' w' vals.
     solve_system 3 0 fresh_backend matrix_malformed rhs_A None no_wells answers_relative
       example_world = Inr (GPU_SOLVER_SUCCESS, res, be', w') \<and>
     roc_calls w' =
       SetDataPtrBCSR [Some 0, Some 5] [Some 7] vals 1 1 1 3 # calls_after_SetDataPtrBCSR rhs_A"
proof -
  have ws: "well_sized 3 0 fresh_backend matrix_malformed answers_relative example_world"
    by (rule well_sized_malformed) (simp add: answers_relative_def)
  from solve_system_checks_no_structure [OF ws arrays_malformed(1) arrays_malformed(2)
      arrays_malformed(3), of rhs_A None no_wells]
  show ?thesis
    by (simp add: call_Nb_def call_nnzb_def matrix_malformed_def example_defs)
qed

text \<open>
  C5 as stated fails: \<open>matrix_malformed\<close> has one block row and one block, three row
  pointers instead of two, the last of them 5, and the column index 7; the call
  raises no error, runs \<^verbatim>\<open>Solve\<close> and returns \<^verbatim>\<open>GPU_SOLVER_SUCCESS\<close>.
\<close>

theorem malformed_matrix_is_solved:
  "\<exists>res be' w'.
     int_mem example_world (rowPointers matrix_malformed) = Some [Some 0, Some 5, Some 5] \<and>
     int_mem example_world (colIndices matrix_malformed) = Some [Some 7] \<and>
     matrix_Nb matrix_malformed = 1 \<and> nnzbs matrix_malformed = 1 \<and>
     solve_system 3 0 fresh_backend matrix_malformed rhs_A None no_wells answers_relative
       example_world = Inr (GPU_SOLVER_SUCCESS, res, be', w') \<and>
     Solve \<in> set (roc_calls w')"
proof -
  have ws: "well_sized 3 0 fresh_backend matrix_malformed answers_relative example_world"
    by (rule well_sized_malformed) (simp add: answers_relative_def)
  from solve_system_total [OF ws arrays_malformed(1) arrays_malformed(2) arrays_malformed(3),
      of rhs_A None no_wells]
  obtain res be' w' where
    r: "solve_system 3 0 fresh_backend matrix_malformed rhs_A None no_wells answers_relative
       example_world = Inr (GPU_SOLVER_SUCCESS, res, be', w')"
    and c: "Solve \<in> set (roc_calls w')"
    by (auto simp: calls_after_SetDataPtrBCSR_def)
  with arrays_malformed show ?thesis
    by (auto simp: matrix_malformed_def)
qed

subsection \<open>Successive calls\<close>

text \<open>
  C6, as the code has it. \<^verbatim>\<open>solve_system\<close> takes the dimensions from the matrix only
  when the backend is not initialised, that is in the first call of a session. Every
  later call keeps \<^verbatim>\<open>Nb\<close>, \<^verbatim>\<open>nnzb\<close>, \<^verbatim>\<open>N\<close>, \<^verbatim>\<open>nnz\<close> and the length of \<^verbatim>\<open>h_x\<close>, whatever
  the dimensions of its matrix. Every call allocates three new staging arrays, of
  \<^verbatim>\<open>Nb + 1\<close>, \<^verbatim>\<open>nnzb\<close> and \<^verbatim>\<open>nnzb * block_size * block_size\<close> cells for the \<^verbatim>\<open>Nb\<close> and
  \<^verbatim>\<open>nnzb\<close> of the backend, hands them with these dimensions to the library and is
  left with null pointers.
\<close>

theorem solve_system_keeps_first_dimensions:
  assumes "solve_system bs ib be m b jac wells lib w = Inr (st, res, be', w')"
  shows "initialized be' \<and>
    (initialized be \<longrightarrow>
       Nb be' = Nb be \<and> nnzb be' = nnzb be \<and> N be' = N be \<and> nnz be' = nnz be \<and>
       length (h_x be') = length (h_x be)) \<and>
    (\<not> initialized be \<longrightarrow>
       Nb be' = matrix_Nb m \<and> nnzb be' = nnzbs m \<and>
       length (h_x be') = nat (u32 (matrix_Nb m * bs))) \<and>
    next_addr w' = next_addr w + 3 \<and>
    tmp_rowpointers be' = nullptr \<and> tmp_colindices be' = nullptr \<and> tmp_nnzvalues be' = nullptr \<and>
    (\<exists>rp ci vs.
       roc_calls w' = roc_calls w @
         SetDataPtrBCSR rp ci vs (nnzb be') (Nb be') (Nb be') bs # calls_after_SetDataPtrBCSR b \<and>
       length rp = nat (Nb be' + 1) \<and> length ci = nat (nnzb be') \<and>
       length vs = nat (u32 (nnzb be' * bs * bs)))"
proof -
  note p = solve_system_partial [OF assms]
  have dims: "call_Nb be m = Nb be'" "call_nnzb be m = nnzb be'"
    using p(6,7) by simp_all
  show ?thesis
  proof (intro conjI impI)
    show "initialized be'" by (rule p(8))
    show "Nb be' = Nb be" "nnzb be' = nnzb be" "N be' = N be" "nnz be' = nnz be"
      "length (h_x be') = length (h_x be)" if "initialized be"
      using p(6,7,9,10) that by (simp_all add: call_Nb_def call_nnzb_def call_h_x_def)
    show "Nb be' = matrix_Nb m" "nnzb be' = nnzbs m"
      "length (h_x be') = nat (u32 (matrix_Nb m * bs))" if "\<not> initialized be"
      using p(6,7,10) that by (simp_all add: call_Nb_def call_nnzb_def call_h_x_def resize_def)
    show "next_addr w' = next_addr w + 3" by (rule p(4))
    show "tmp_rowpointers be' = nullptr" "tmp_colindices be' = nullptr"
      "tmp_nnzvalues be' = nullptr"
      using p(11) by simp_all
    show "\<exists>rp ci vs.
       roc_calls w' = roc_calls w @
         SetDataPtrBCSR rp ci vs (nnzb be') (Nb be') (Nb be') bs # calls_after_SetDataPtrBCSR b \<and>
       length rp = nat (Nb be' + 1) \<and> length ci = nat (nnzb be') \<and>
       length vs = nat (u32 (nnzb be' * bs * bs))"
      using p(3) unfolding dims .
  qed
qed

text \<open>A call on \<open>matrix_A\<close> followed by a call on \<open>matrix_B\<close>, on one backend.\<close>

theorem solve_system_keeps_first_dimensions_witness:
  "\<exists>st1 res1 be1 w1 st2 res2 be2 w2.
     solve_system 3 0 fresh_backend matrix_A rhs_A None no_wells answers_relative example_world =
       Inr (st1, res1, be1, w1) \<and>
     initialized be1 \<and> Nb be1 = 1 \<and> nnzb be1 = 1 \<and> length (h_x be1) = 3 \<and>
     solve_system 3 0 be1 matrix_B rhs_B None no_wells answers_relative w1 =
       Inr (st2, res2, be2, w2) \<and>
     Nb be2 = 1 \<and> nnzb be2 = 1 \<and> length (h_x be2) = 3 \<and> next_addr w2 = next_addr w1 + 3"
proof -
  obtain res1 be1 w1 where r1:
    "solve_system 3 0 fresh_backend matrix_A rhs_A None no_wells answers_relative example_world =
       Inr (GPU_SOLVER_SUCCESS, res1, be1, w1)"
    using solve_A [of answers_relative rhs_A None no_wells]
    by (auto simp: answers_relative_def)
  obtain res2 be2 w2 where r2:
    "solve_system 3 0 be1 matrix_B rhs_B None no_wells answers_relative w1 =
       Inr (GPU_SOLVER_SUCCESS, res2, be2, w2)"
    using solve_B_after_A [OF r1, of answers_relative rhs_B None no_wells]
    by (auto simp: answers_relative_def)
  from solve_system_keeps_first_dimensions [OF r1]
  have 1: "initialized be1" "Nb be1 = 1" "nnzb be1 = 1" "length (h_x be1) = 3"
    by (simp_all add: fresh_backend_def matrix_A_def u32_def)
  from solve_system_keeps_first_dimensions [OF r2] 1
  have 2: "Nb be2 = 1" "nnzb be2 = 1" "length (h_x be2) = 3" "next_addr w2 = next_addr w1 + 3"
    by simp_all
  from r1 r2 1 2 show ?thesis by blast
qed

text \<open>
  C6 as stated fails: after a call on \<open>matrix_A\<close> (one block row, one block), a call on
  \<open>matrix_B\<close> (two block rows, two blocks) neither allocates anew for the new
  dimensions nor fails; it hands the library two row pointers, one column index and
  the first block of \<open>matrix_B\<close>, with the dimensions of \<open>matrix_A\<close>.
\<close>

theorem second_matrix_solved_with_first_dimensions:
  "\<exists>st1 res1 be1 w1 res2 be2 w2.
     solve_system 3 0 fresh_backend matrix_A rhs_A None no_wells answers_relative example_world =
       Inr (st1, res1, be1, w1) \<and>
     solve_system 3 0 be1 matrix_B rhs_B None no_wells answers_relative w1 =
       Inr (GPU_SOLVER_SUCCESS, res2, be2, w2) \<and>
     matrix_Nb matrix_B = 2 \<and> nnzbs matrix_B = 2 \<and>
     Nb be2 = 1 \<and> nnzb be2 = 1 \<and> length (h_x be2) = 3 \<and>
     roc_calls w2 = roc_calls w1 @
       SetDataPtrBCSR [Some 0, Some 1] [Some 0] (map Some [10, 13, 16, 11, 14, 17, 12, 15, 18])
         1 1 1 3 # calls_after_SetDataPtrBCSR rhs_B"
proof -
  obtain res1 be1 w1 where r1:
    "solve_system 3 0 fresh_backend matrix_A rhs_A None no_wells answers_relative example_world =
       Inr (GPU_SOLVER_SUCCESS, res1, be1, w1)"
    using solve_A [of answers_relative rhs_A None no_wells]
    by (auto simp: answers_relative_def)
  obtain res2 be2 w2 where r2:
    "solve_system 3 0 be1 matrix_B rhs_B None no_wells answers_relative w1 =
       Inr (GPU_SOLVER_SUCCESS, res2, be2, w2)"
    and c2: "roc_calls w2 = roc_calls w1 @
       SetDataPtrBCSR [Some 0, Some 1] [Some 0] (map Some [10, 13, 16, 11, 14, 17, 12, 15, 18])
         1 1 1 3 # calls_after_SetDataPtrBCSR rhs_B"
    using solve_B_after_A [OF r1, of answers_relative rhs_B None no_wells]
    by (auto simp: answers_relative_def)
  note p1 = solve_system_partial [OF r1]
  note p2 = solve_system_partial [OF r2]
  have 1: "initialized be1" "Nb be1 = 1" "nnzb be1 = 1" "length (h_x be1) = 3"
    using p1(6,7,8,10)
    by (simp_all add: call_Nb_def call_nnzb_def call_h_x_def resize_def u32_def example_defs)
  have 2: "Nb be2 = 1" "nnzb be2 = 1" "length (h_x be2) = 3"
    using p2(6,7,10) 1 by (simp_all add: call_Nb_def call_nnzb_def call_h_x_def)
  from r1 r2 c2 2 show ?thesis
    by (auto simp: matrix_B_def)
qed

subsection \<open>Returning a result\<close>

text \<open>
  C7, as the code has it. For every call that stays within its arrays and within 32
  bits (\<open>well_sized\<close>: the dimensions of the call, the lengths of the caller's three
  arrays, block size 3 at least under \<^verbatim>\<open>BCSR_IND_BASE == 0\<close>, a solution vector not
  longer than \<^verbatim>\<open>h_x\<close>) and for every answer of the library, whatever its status,
  iteration count and residual, \<^verbatim>\<open>solve_system\<close> returns \<^verbatim>\<open>GPU_SOLVER_SUCCESS\<close> with the
  result filled in from the library's answers, and it has called \<^verbatim>\<open>Solve\<close> exactly
  once. Nothing is said here about the other calls.
\<close>

theorem solve_system_returns_result:
  assumes "well_sized bs ib be m lib w"
    and "int_mem w (rowPointers m) = Some rp"
    and "int_mem w (colIndices m) = Some ci"
    and "ib = 0 \<Longrightarrow> val_mem w (nnzValues m) = Some vs"
  shows "\<exists>res be' w'.
     solve_system bs ib be m b jac wells lib w = Inr (GPU_SOLVER_SUCCESS, res, be', w') \<and>
     iterations res = GetIterationCount lib \<and>
     reduction res = double_div (GetCurrentResidual lib) (Norm lib) \<and>
     (converged res \<longleftrightarrow> GetSolverStatus lib = relative_tolerance_reached) \<and>
     elapsed res = t_solve_stop lib \<and>
     count_list (drop (length (roc_calls w)) (roc_calls w')) Solve = 1"
proof -
  from solve_system_total [OF assms, of b jac wells] obtain res be' w' vals where
    r: "solve_system bs ib be m b jac wells lib w = Inr (GPU_SOLVER_SUCCESS, res, be', w')"
    and c: "roc_calls w' = roc_calls w @
       SetDataPtrBCSR (take (nat (call_Nb be m + 1)) rp) (take (nat (call_nnzb be m)) ci) vals
         (call_nnzb be m) (call_Nb be m) (call_Nb be m) bs #
       calls_after_SetDataPtrBCSR b"
    by blast
  have "res = GpuResult_of lib"
    by (rule solve_system_partial(2) [OF r])
  then have "iterations res = GetIterationCount lib"
    "reduction res = double_div (GetCurrentResidual lib) (Norm lib)"
    "converged res \<longleftrightarrow> GetSolverStatus lib = relative_tolerance_reached"
    "elapsed res = t_solve_stop lib"
    by (simp_all add: GpuResult_of_def relative_tolerance_reached_def)
  moreover have "count_list (drop (length (roc_calls w)) (roc_calls w')) Solve = 1"
    by (simp add: c calls_after_SetDataPtrBCSR_def)
  ultimately show ?thesis using r by blast
qed

text \<open>A call in which the library reports divergence and a residual that is not a number.\<close>

theorem solve_system_returns_result_witness:
  "\<exists>res be' w'.
     solve_system 3 0 fresh_backend matrix_A rhs_A None no_wells answers_diverged example_world =
       Inr (GPU_SOLVER_SUCCESS, res, be', w') \<and>
     GetSolverStatus answers_diverged = divergence_tolerance_reached \<and>
     iterations res = 7 \<and> reduction res = NaN \<and> \<not> converged res \<and>
     count_list (roc_calls w') Solve = 1"
proof -
  have ws: "well_sized 3 0 fresh_backend matrix_A answers_diverged example_world"
    by (rule well_sized_A) (simp add: answers_diverged_def)
  from solve_system_returns_result [OF ws arrays_A(1) arrays_A(2) arrays_A(3),
      of rhs_A None no_wells]
  obtain res be' w' where r:
    "solve_system 3 0 fresh_backend matrix_A rhs_A None no_wells answers_diverged example_world =
       Inr (GPU_SOLVER_SUCCESS, res, be', w')"
    and f: "iterations res = GetIterationCount answers_diverged"
      "reduction res = double_div (GetCurrentResidual answers_diverged) (Norm answers_diverged)"
      "converged res \<longleftrightarrow> GetSolverStatus answers_diverged = relative_tolerance_reached"
      "count_list (drop (length (roc_calls example_world)) (roc_calls w')) Solve = 1"
    by blast
  have "iterations res = 7" "reduction res = NaN" "\<not> converged res"
    "count_list (roc_calls w') Solve = 1"
    "GetSolverStatus answers_diverged = divergence_tolerance_reached"
    using f
    by (simp_all add: answers_diverged_def relative_tolerance_reached_def
        divergence_tolerance_reached_def example_world_def)
  with r show ?thesis by blast
qed

text \<open>
  C7 as stated, for every solve call, fails.
  \<^item> A backend keeps the dimensions of its first call. After a call on \<open>matrix_B\<close>, of two
    block rows, a call on \<open>matrix_A\<close>, of one block row, reads \<^verbatim>\<open>rowPointers[2]\<close> in an
    array of two cells; it does not return a result.
  \<^item> With block size 1 and \<^verbatim>\<open>BCSR_IND_BASE == 0\<close> the loop over the blocks reads
    \<^verbatim>\<open>nnzValues[3]\<close> in an array of one cell; the call on \<open>matrix_1\<close> does not return a
    result either.
\<close>

theorem solve_system_does_not_always_return:
  "(\<exists>res1 be1 w1.
      solve_system 3 0 fresh_backend matrix_B rhs_B None no_wells answers_relative example_world =
        Inr (GPU_SOLVER_SUCCESS, res1, be1, w1) \<and>
      solve_system 3 0 be1 matrix_A rhs_A None no_wells answers_relative w1 = Inl OutOfBounds) \<and>
   solve_system 1 0 fresh_backend matrix_1 [3] None no_wells answers_1 example_world =
     Inl OutOfBounds"
  by (simp add: matrix_B_def rhs_B_def matrix_1_def answers_1_def example_defs model_defs)

subsection \<open>Well contributions\<close>

text \<open>
  C8, as the code has it. \<^verbatim>\<open>solve_system\<close> does not use its argument \<^verbatim>\<open>wellContribs\<close>:
  \<^item> the outcome of a call is the same for any two values of it;
  \<^item> whenever a call returns, the library calls it made are \<^verbatim>\<open>SetDataPtrBCSR\<close> with the
    staging arrays, and then a fixed sequence in which \<^verbatim>\<open>CopyFromData\<close> gets the
    caller's right-hand side \<open>b\<close> and \<^verbatim>\<open>Solve\<close> comes later;
  \<^item> on an input that the code reads within bounds, with blocks of size 3 under the
    column-major convention, the values handed to \<^verbatim>\<open>SetDataPtrBCSR\<close> are the caller's
    values, transposed.
\<close>

theorem solve_system_ignores_wellContribs:
  "solve_system bs ib be m b jac wells lib w = solve_system bs ib be m b jac wells' lib w \<and>
   (\<forall>st res be' w'. solve_system bs ib be m b jac wells lib w = Inr (st, res, be', w') \<longrightarrow>
      (\<exists>rp ci vs. roc_calls w' = roc_calls w @
         [SetDataPtrBCSR rp ci vs (call_nnzb be m) (call_Nb be m) (call_Nb be m) bs,
          MoveToAccelerator_mat, MoveToAccelerator_x, MoveToAccelerator_rhs,
          Allocate_x, Allocate_rhs, CopyFromData b, Zeros_x,
          Clear, SetOperator, SetPreconditioner, ReBuildNumeric, Norm_rhs, Solve,
          MoveToHost_x, CopyToData])) \<and>
   (well_sized 3 0 be m lib w \<and> int_mem w (rowPointers m) = Some rp \<and>
    int_mem w (colIndices m) = Some ci \<and> val_mem w (nnzValues m) = Some vs \<longrightarrow>
      (\<exists>res be' w'. solve_system 3 0 be m b jac wells lib w = Inr (GPU_SOLVER_SUCCESS, res, be', w') \<and>
         roc_calls w' = roc_calls w @
           SetDataPtrBCSR (take (nat (call_Nb be m + 1)) rp) (take (nat (call_nnzb be m)) ci)
             (transpose3_blocks (nat (call_nnzb be m)) vs)
             (call_nnzb be m) (call_Nb be m) (call_Nb be m) 3 #
           calls_after_SetDataPtrBCSR b))"
proof (intro conjI allI impI)
  show "solve_system bs ib be m b jac wells lib w = solve_system bs ib be m b jac wells' lib w"
    by (simp add: solve_system_def)
next
  fix st res be' w'
  assume "solve_system bs ib be m b jac wells lib w = Inr (st, res, be', w')"
  from solve_system_partial(3) [OF this]
  show "\<exists>rp ci vs. roc_calls w' = roc_calls w @
         [SetDataPtrBCSR rp ci vs (call_nnzb be m) (call_Nb be m) (call_Nb be m) bs,
          MoveToAccelerator_mat, MoveToAccelerator_x, MoveToAccelerator_rhs,
          Allocate_x, Allocate_rhs, CopyFromData b, Zeros_x,
          Clear, SetOperator, SetPreconditioner, ReBuildNumeric, Norm_rhs, Solve,
          MoveToHost_x, CopyToData]"
    by (auto simp: calls_after_SetDataPtrBCSR_def)
next
  assume a: "well_sized 3 0 be m lib w \<and> int_mem w (rowPointers m) = Some rp \<and>
    int_mem w (colIndices m) = Some ci \<and> val_mem w (nnzValues m) = Some vs"
  then have "well_sized 3 0 be m lib w" "int_mem w (rowPointers m) = Some rp"
    "int_mem w (colIndices m) = Some ci" "0 = (0::int) \<Longrightarrow> val_mem w (nnzValues m) = Some vs"
    by simp_all
  from solve_system_total [OF this, of b jac wells]
  show "\<exists>res be' w'. solve_system 3 0 be m b jac wells lib w = Inr (GPU_SOLVER_SUCCESS, res, be', w') \<and>
         roc_calls w' = roc_calls w @
           SetDataPtrBCSR (take (nat (call_Nb be m + 1)) rp) (take (nat (call_nnzb be m)) ci)
             (transpose3_blocks (nat (call_nnzb be m)) vs)
             (call_nnzb be m) (call_Nb be m) (call_Nb be m) 3 #
           calls_after_SetDataPtrBCSR b"
    by auto
qed

text \<open>The call on \<open>matrix_A\<close> with the well contributions \<open>wells_A\<close> and with none.\<close>

theorem solve_system_ignores_wellContribs_witness:
  "solve_system 3 0 fresh_backend matrix_A rhs_A None wells_A answers_relative example_world =
     solve_system 3 0 fresh_backend matrix_A rhs_A None no_wells answers_relative example_world \<and>
   (\<exists>res be' w'.
      solve_system 3 0 fresh_backend matrix_A rhs_A None wells_A answers_relative example_world =
        Inr (GPU_SOLVER_SUCCESS, res, be', w') \<and>
      roc_calls w' =
        SetDataPtrBCSR [Some 0, Some 1] [Some 0] (map Some [10, 13, 16, 11, 14, 17, 12, 15, 18])
          1 1 1 3 # calls_after_SetDataPtrBCSR rhs_A)"
proof -
  note t = solve_system_ignores_wellContribs [of 3 0 fresh_backend matrix_A rhs_A None wells_A
      answers_relative example_world no_wells "[Some 0, Some 1]" "[Some 0]"
      "map Some [10, 11, 12, 13, 14, 15, 16, 17, 18]"]
  have ws: "well_sized 3 0 fresh_backend matrix_A answers_relative example_world"
    by (rule well_sized_A) (simp add: answers_relative_def)
  from t have "solve_system 3 0 fresh_backend matrix_A rhs_A None wells_A answers_relative example_world =
     solve_system 3 0 fresh_backend matrix_A rhs_A None no_wells answers_relative example_world"
    by (elim conjE)
  moreover from t ws arrays_A have "\<exists>res be' w'.
      solve_system 3 0 fresh_backend matrix_A rhs_A None wells_A answers_relative example_world =
        Inr (GPU_SOLVER_SUCCESS, res, be', w') \<and>
      roc_calls w' = roc_calls example_world @
        SetDataPtrBCSR (take (nat (call_Nb fresh_backend matrix_A + 1)) [Some 0, Some 1])
          (take (nat (call_nnzb fresh_backend matrix_A)) [Some 0])
          (transpose3_blocks (nat (call_nnzb fresh_backend matrix_A))
             (map Some [10, 11, 12, 13, 14, 15, 16, 17, 18]))
          (call_nnzb fresh_backend matrix_A) (call_Nb fresh_backend matrix_A)
          (call_Nb fresh_backend matrix_A) 3 #
        calls_after_SetDataPtrBCSR rhs_A"
    by blast
  ultimately show ?thesis
    by (simp add: call_Nb_def call_nnzb_def transpose3_blocks_def example_defs)
qed

text \<open>
  C8 as stated fails: with the contributions \<open>wells_A\<close>, whose terms are not zero, the
  library is handed the values of \<open>matrix_A\<close> and the right-hand side \<open>rhs_A\<close> as they
  are; the right-hand side with the terms added never reaches it.
\<close>

theorem well_contributions_are_not_added:
  "\<exists>res be' w'.
     solve_system 3 0 fresh_backend matrix_A rhs_A None wells_A answers_relative example_world =
       Inr (GPU_SOLVER_SUCCESS, res, be', w') \<and>
     roc_calls w' =
       [SetDataPtrBCSR [Some 0, Some 1] [Some 0] (map Some [10, 13, 16, 11, 14, 17, 12, 15, 18])
          1 1 1 3,
        MoveToAccelerator_mat, MoveToAccelerator_x, MoveToAccelerator_rhs,
        Allocate_x, Allocate_rhs, CopyFromData [3, 0, 4], Zeros_x,
        Clear, SetOperator, SetPreconditioner, ReBuildNumeric, Norm_rhs, Solve,
        MoveToHost_x, CopyToData] \<and>
     add_rhs_terms rhs_A wells_A = [8, 5, 9] \<and>
     CopyFromData (add_rhs_terms rhs_A wells_A) \<notin> set (roc_calls w') \<and>
     add_matrix_terms [10, 11, 12, 13, 14, 15, 16, 17, 18] wells_A =
       [11, 12, 13, 14, 15, 16, 17, 18, 19]"
proof -
  obtain res be' w' where r:
    "solve_system 3 0 fresh_backend matrix_A rhs_A None wells_A answers_relative example_world =
       Inr (GPU_SOLVER_SUCCESS, res, be', w')"
    and c: "roc_calls w' =
       SetDataPtrBCSR [Some 0, Some 1] [Some 0] (map Some [10, 13, 16, 11, 14, 17, 12, 15, 18])
         1 1 1 3 # calls_after_SetDataPtrBCSR rhs_A"
    using solve_A [of answers_relative rhs_A None wells_A]
    by (auto simp: answers_relative_def)
  have a: "add_rhs_terms rhs_A wells_A = [8, 5, 9]"
    "add_matrix_terms [10, 11, 12, 13, 14, 15, 16, 17, 18] wells_A =
       [11, 12, 13, 14, 15, 16, 17, 18, 19]"
    by (simp_all add: add_rhs_terms_def add_matrix_terms_def rhs_A_def wells_A_def)
  have "CopyFromData (add_rhs_terms rhs_A wells_A) \<notin> set (roc_calls w')"
    unfolding a c by (simp add: calls_after_SetDataPtrBCSR_def rhs_A_def)
  with r c a show ?thesis
    by (simp add: calls_after_SetDataPtrBCSR_def rhs_A_def)
qed

subsection \<open>The caller's matrix\<close>

text \<open>
  C9. Whenever \<^verbatim>\<open>solve_system\<close> returns, every array that was allocated before the
  call holds what it held before; so do the \<^verbatim>\<open>rowPointers\<close>, \<^verbatim>\<open>colIndices\<close> and
  \<^verbatim>\<open>nnzValues\<close> of the caller's matrix.
\<close>

theorem solve_system_leaves_caller_arrays:
  assumes "solve_system bs ib be m b jac wells lib w = Inr (st, res, be', w')"
    and "rowPointers m < next_addr w" and "colIndices m < next_addr w"
    and "nnzValues m < next_addr w"
  shows "int_mem w' (rowPointers m) = int_mem w (rowPointers m) \<and>
         int_mem w' (colIndices m) = int_mem w (colIndices m) \<and>
         val_mem w' (nnzValues m) = val_mem w (nnzValues m) \<and>
         (\<forall>p. p < next_addr w \<longrightarrow> int_mem w' p = int_mem w p \<and> val_mem w' p = val_mem w p)"
  using solve_system_partial(5) [OF assms(1)] assms(2-4) by simp

text \<open>After a call on \<open>matrix_A\<close>, its arrays and those of \<open>matrix_B\<close> are as before.\<close>

theorem solve_system_leaves_caller_arrays_witness:
  "\<exists>st res be' w'.
     solve_system 3 0 fresh_backend matrix_A rhs_A None no_wells answers_relative example_world =
       Inr (st, res, be', w') \<and>
     int_mem w' (rowPointers matrix_A) = Some [Some 0, Some 1] \<and>
     int_mem w' (colIndices matrix_A) = Some [Some 0] \<and>
     val_mem w' (nnzValues matrix_A) = Some (map Some [10, 11, 12, 13, 14, 15, 16, 17, 18]) \<and>
     int_mem w' (rowPointers matrix_B) = int_mem example_world (rowPointers matrix_B)"
proof -
  obtain res be' w' where r:
    "solve_system 3 0 fresh_backend matrix_A rhs_A None no_wells answers_relative example_world =
       Inr (GPU_SOLVER_SUCCESS, res, be', w')"
    using solve_A [of answers_relative rhs_A None no_wells]
    by (auto simp: answers_relative_def)
  have "rowPointers matrix_A < next_addr example_world"
    "colIndices matrix_A < next_addr example_world"
    "nnzValues matrix_A < next_addr example_world"
    by (simp_all add: example_defs)
  from solve_system_leaves_caller_arrays [OF r this]
  have "int_mem w' (rowPointers matrix_A) = int_mem example_world (rowPointers matrix_A)"
    "int_mem w' (colIndices matrix_A) = int_mem example_world (colIndices matrix_A)"
    "val_mem w' (nnzValues matrix_A) = val_mem example_world (nnzValues matrix_A)"
    "int_mem w' (rowPointers matrix_B) = int_mem example_world (rowPointers matrix_B)"
    by (simp_all add: matrix_B_def example_world_def)
  with r show ?thesis
    by (simp add: arrays_A)
qed

subsection \<open>The staging buffer of the values\<close>

text \<open>
  C10. On every input that the code reads within bounds, \<^verbatim>\<open>solve_system\<close> returns and
  has handed three arrays to \<^verbatim>\<open>SetDataPtrBCSR\<close>. Under the row-major convention
  (\<^verbatim>\<open>BCSR_IND_BASE\<close> not 0) no cell of the array of values was ever written. Under the
  column-major convention (\<^verbatim>\<open>BCSR_IND_BASE == 0\<close>) with blocks of size 3 every cell
  holds a value of the caller, in the order of the transposed blocks.
\<close>

theorem staging_values_copied_only_for_column_major:
  assumes "well_sized bs ib be m lib w"
    and "int_mem w (rowPointers m) = Some rp"
    and "int_mem w (colIndices m) = Some ci"
    and "ib = 0 \<Longrightarrow> val_mem w (nnzValues m) = Some vs"
  shows "\<exists>res be' w' rp' ci' vals.
     solve_system bs ib be m b jac wells lib w = Inr (GPU_SOLVER_SUCCESS, res, be', w') \<and>
     roc_calls w' = roc_calls w @
       SetDataPtrBCSR rp' ci' vals (call_nnzb be m) (call_Nb be m) (call_Nb be m) bs #
       calls_after_SetDataPtrBCSR b \<and>
     (ib \<noteq> 0 \<longrightarrow> vals = replicate (nat (u32 (call_nnzb be m * bs * bs))) None) \<and>
     (ib = 0 \<and> bs = 3 \<longrightarrow>
        vals = transpose3_blocks (nat (call_nnzb be m)) vs \<and> None \<notin> set vals)"
proof -
  from solve_system_total [OF assms, of b jac wells] obtain res be' w' vals where
    r: "solve_system bs ib be m b jac wells lib w = Inr (GPU_SOLVER_SUCCESS, res, be', w')"
    and c: "roc_calls w' = roc_calls w @
       SetDataPtrBCSR (take (nat (call_Nb be m + 1)) rp) (take (nat (call_nnzb be m)) ci) vals
         (call_nnzb be m) (call_Nb be m) (call_Nb be m) bs #
       calls_after_SetDataPtrBCSR b"
    and row: "ib \<noteq> 0 \<longrightarrow> vals = replicate (nat (u32 (call_nnzb be m * bs * bs))) None"
    and col: "ib = 0 \<and> bs = 3 \<longrightarrow> vals = transpose3_blocks (nat (call_nnzb be m)) vs"
    by blast
  have "None \<notin> set (transpose3_blocks (nat (call_nnzb be m)) vs)" if ib: "ib = 0" and bs: "bs = 3"
  proof -
    from assms(1) ib bs assms(4) [OF ib]
    have "0 \<le> call_nnzb be m" and rd: "readable (nat (9 * call_nnzb be m)) (Some vs)"
      by (simp_all add: well_sized_def)
    then have n: "nat (9 * call_nnzb be m) = 9 * nat (call_nnzb be m)"
      by (simp add: nat_mult_distrib)
    from rd have "9 * nat (call_nnzb be m) \<le> length vs"
      "None \<notin> set (take (9 * nat (call_nnzb be m)) vs)"
      by (simp_all add: readable_Some n)
    with set_transpose3_blocks [of "nat (call_nnzb be m)" vs] show ?thesis
      by auto
  qed
  with r c row col show ?thesis
    by (intro exI [of _ res] exI [of _ be'] exI [of _ w'] exI [of _ vals] exI conjI) auto
qed

text \<open>The same call on \<open>matrix_A\<close> under the two conventions.\<close>

theorem staging_values_copied_only_for_column_major_witness:
  "(\<exists>res be' w' rp' ci'.
     solve_system 3 0 fresh_backend matrix_A rhs_A None no_wells answers_relative example_world =
       Inr (GPU_SOLVER_SUCCESS, res, be', w') \<and>
     roc_calls w' =
       SetDataPtrBCSR rp' ci' (map Some [10, 13, 16, 11, 14, 17, 12, 15, 18]) 1 1 1 3 #
       calls_after_SetDataPtrBCSR rhs_A) \<and>
   (\<exists>res be' w' rp' ci'.
     solve_system 3 1 fresh_backend matrix_A rhs_A None no_wells answers_relative example_world =
       Inr (GPU_SOLVER_SUCCESS, res, be', w') \<and>
     roc_calls w' =
       SetDataPtrBCSR rp' ci' [None, None, None, None, None, None, None, None, None] 1 1 1 3 #
       calls_after_SetDataPtrBCSR rhs_A)"
proof
  have ws: "well_sized 3 0 fresh_backend matrix_A answers_relative example_world"
    by (rule well_sized_A) (simp add: answers_relative_def)
  from staging_values_copied_only_for_column_major [OF ws arrays_A(1) arrays_A(2) arrays_A(3),
      of rhs_A None no_wells]
  show "\<exists>res be' w' rp' ci'.
     solve_system 3 0 fresh_backend matrix_A rhs_A None no_wells answers_relative example_world =
       Inr (GPU_SOLVER_SUCCESS, res, be', w') \<and>
     roc_calls w' =
       SetDataPtrBCSR rp' ci' (map Some [10, 13, 16, 11, 14, 17, 12, 15, 18]) 1 1 1 3 #
       calls_after_SetDataPtrBCSR rhs_A"
    by (auto simp: call_Nb_def call_nnzb_def transpose3_blocks_def example_defs)
next
  have ws: "well_sized 3 1 fresh_backend matrix_A answers_relative example_world"
    by (rule well_sized_A_row_major) (simp add: answers_relative_def)
  from staging_values_copied_only_for_column_major [OF ws arrays_A(1) arrays_A(2),
      of "[]" rhs_A None no_wells]
  show "\<exists>res be' w' rp' ci'.
     solve_system 3 1 fresh_backend matrix_A rhs_A None no_wells answers_relative example_world =
       Inr (GPU_SOLVER_SUCCESS, res, be', w') \<and>
     roc_calls w' =
       SetDataPtrBCSR rp' ci' [None, None, None, None, None, None, None, None, None] 1 1 1 3 #
       calls_after_SetDataPtrBCSR rhs_A"
    by (auto simp: call_Nb_def call_nnzb_def u32_def eval_nat_numeral example_defs)
qed

end
